theory Spec2Isabelle
  imports Main "HOL-Library.Word"
begin

unbundle bit_operations_syntax

section \<open>Bytes, strings and the line feed\<close>

text \<open>
  A Go \<^verbatim>\<open>string\<close> and a \<^verbatim>\<open>[]byte\<close> are both sequences of bytes. They are modelled
  by \<^typ>\<open>string\<close> (a list of 8-bit characters); where the hash function computes on
  the bytes, each character is read as an \<^typ>\<open>8 word\<close>.
\<close>

type_synonym byte = "8 word"
type_synonym uint32 = "32 word"
type_synonym uint64 = "64 word"

abbreviation LF :: char where
  "LF \<equiv> CHR 0x0A"

abbreviation CR :: char where
  "CR \<equiv> CHR 0x0D"

definition bytes_of :: "string \<Rightarrow> byte list" where
  "bytes_of s = map of_char s"

section \<open>The library functions the program calls\<close>

subsection \<open>crypto/sha256\<close>

text \<open>
  \<^verbatim>\<open>h := sha256.New(); h.Write(p); h.Sum(nil)\<close> is the SHA-256 digest of \<^verbatim>\<open>p\<close>
  (FIPS 180-4): the message is padded to a multiple of 64 bytes, and every 64-byte chunk
  is fed to the compression function, as \<^verbatim>\<open>blockGeneric\<close> of the Go library does.
  \<open>K256\<close> is the library's table \<^verbatim>\<open>_K\<close>, four constants to a row.
\<close>

definition RotateRight32 :: "uint32 \<Rightarrow> nat \<Rightarrow> uint32" where
  "RotateRight32 x k = drop_bit k x OR push_bit (32 - k) x"

definition K256 :: "uint32 list" where
  "K256 =
     [0x428a2f98, 0x71374491, 0xb5c0fbcf, 0xe9b5dba5] @
     [0x3956c25b, 0x59f111f1, 0x923f82a4, 0xab1c5ed5] @
     [0xd807aa98, 0x12835b01, 0x243185be, 0x550c7dc3] @
     [0x72be5d74, 0x80deb1fe, 0x9bdc06a7, 0xc19bf174] @
     [0xe49b69c1, 0xefbe4786, 0x0fc19dc6, 0x240ca1cc] @
     [0x2de92c6f, 0x4a7484aa, 0x5cb0a9dc, 0x76f988da] @
     [0x983e5152, 0xa831c66d, 0xb00327c8, 0xbf597fc7] @
     [0xc6e00bf3, 0xd5a79147, 0x06ca6351, 0x14292967] @
     [0x27b70a85, 0x2e1b2138, 0x4d2c6dfc, 0x53380d13] @
     [0x650a7354, 0x766a0abb, 0x81c2c92e, 0x92722c85] @
     [0xa2bfe8a1, 0xa81a664b, 0xc24b8b70, 0xc76c51a3] @
     [0xd192e819, 0xd6990624, 0xf40e3585, 0x106aa070] @
     [0x19a4c116, 0x1e376c08, 0x2748774c, 0x34b0bcb5] @
     [0x391c0cb3, 0x4ed8aa4a, 0x5b9cca4f, 0x682e6ff3] @
     [0x748f82ee, 0x78a5636f, 0x84c87814, 0x8cc70208] @
     [0x90befffa, 0xa4506ceb, 0xbef9a3f7, 0xc67178f2]"

definition init256 :: "uint32 list" where
  "init256 = [0x6a09e667, 0xbb67ae85, 0x3c6ef372, 0xa54ff53a,
              0x510e527f, 0x9b05688c, 0x1f83d9ab, 0x5be0cd19]"

text \<open>Four bytes, big-endian, as one 32-bit word.\<close>

definition be32 :: "byte list \<Rightarrow> uint32" where
  "be32 bs = foldl (\<lambda>acc b. push_bit 8 acc OR ucast b) 0 (take 4 bs)"

fun words_of_chunk :: "nat \<Rightarrow> byte list \<Rightarrow> uint32 list" where
  "words_of_chunk 0 bs = []"
| "words_of_chunk (Suc n) bs = be32 bs # words_of_chunk n (drop 4 bs)"

definition sigma0 :: "uint32 \<Rightarrow> uint32" where
  "sigma0 v = RotateRight32 v 7 XOR RotateRight32 v 18 XOR drop_bit 3 v"

definition sigma1 :: "uint32 \<Rightarrow> uint32" where
  "sigma1 v = RotateRight32 v 17 XOR RotateRight32 v 19 XOR drop_bit 10 v"

text \<open>
  The message schedule \<^verbatim>\<open>w[16..63]\<close>. The list is kept newest first, so that
  \<^verbatim>\<open>w[i-2]\<close>, \<^verbatim>\<open>w[i-7]\<close>, \<^verbatim>\<open>w[i-15]\<close> and \<^verbatim>\<open>w[i-16]\<close> are the elements
  1, 6, 14 and 15.
\<close>

fun schedule :: "nat \<Rightarrow> uint32 list \<Rightarrow> uint32 list" where
  "schedule 0 ws = ws"
| "schedule (Suc n) ws =
     schedule n ((sigma1 (ws ! 1) + ws ! 6 + sigma0 (ws ! 14) + ws ! 15) # ws)"

fun round256 :: "uint32 list \<Rightarrow> uint32 \<times> uint32 \<Rightarrow> uint32 list" where
  "round256 [a, b, c, d, e, f, g, h] (k, w) =
     (let t1 = h + (RotateRight32 e 6 XOR RotateRight32 e 11 XOR RotateRight32 e 25)
                 + ((e AND f) XOR (NOT e AND g)) + k + w;
          t2 = (RotateRight32 a 2 XOR RotateRight32 a 13 XOR RotateRight32 a 22)
                 + ((a AND b) XOR (a AND c) XOR (b AND c))
      in [t1 + t2, a, b, c, d + t1, e, f, g])"
| "round256 hs _ = hs"

definition block256 :: "uint32 list \<Rightarrow> byte list \<Rightarrow> uint32 list" where
  "block256 hs p =
     (let w = rev (schedule 48 (rev (words_of_chunk 16 p)))
      in map2 (+) hs (foldl round256 hs (zip K256 w)))"

function blocks256 :: "uint32 list \<Rightarrow> byte list \<Rightarrow> uint32 list" where
  "blocks256 hs p =
     (if length p < 64 then hs else blocks256 (block256 hs (take 64 p)) (drop 64 p))"
  by pat_completeness auto
termination
  by (relation "measure (\<lambda>(hs, p). length p)") auto

declare blocks256.simps [simp del]

text \<open>
  \<^verbatim>\<open>binary.BigEndian.PutUint32\<close> and \<^verbatim>\<open>PutUint64\<close>: the bytes of a word, most
  significant first (\<^verbatim>\<open>byte(v >> 24), byte(v >> 16), byte(v >> 8), byte(v)\<close>).
\<close>

definition PutUint32 :: "uint32 \<Rightarrow> byte list" where
  "PutUint32 v = [ucast (drop_bit 24 v), ucast (drop_bit 16 v), ucast (drop_bit 8 v), ucast v]"

definition PutUint64 :: "uint64 \<Rightarrow> byte list" where
  "PutUint64 v =
     [ucast (drop_bit 56 v), ucast (drop_bit 48 v), ucast (drop_bit 40 v), ucast (drop_bit 32 v),
      ucast (drop_bit 24 v), ucast (drop_bit 16 v), ucast (drop_bit 8 v), ucast v]"

text \<open>
  The padding of \<^verbatim>\<open>checkSum\<close>: one byte \<^verbatim>\<open>0x80\<close>, zero bytes up to 56 modulo 64, and
  the length of the message in bits as a 64-bit big-endian number (\<^verbatim>\<open>len << 3\<close> on a
  \<^verbatim>\<open>uint64\<close>, which wraps).
\<close>

definition pad256 :: "byte list \<Rightarrow> byte list" where
  "pad256 m =
     (let len = length m;
          r = len mod 64;
          z = (if r < 56 then 55 - r else 119 - r)
      in m @ [0x80] @ replicate z 0 @ PutUint64 (push_bit 3 (of_nat len)))"

definition sha256_Sum :: "byte list \<Rightarrow> byte list" where
  "sha256_Sum m = concat (map PutUint32 (blocks256 init256 (pad256 m)))"

subsection \<open>encoding/hex\<close>

definition hextable :: string where
  "hextable = ''0123456789abcdef''"

text \<open>\<^verbatim>\<open>dst[j] = hextable[v>>4]; dst[j+1] = hextable[v&0x0f]\<close> for every byte \<^verbatim>\<open>v\<close>.\<close>

definition EncodeToString :: "byte list \<Rightarrow> string" where
  "EncodeToString src =
     concat (map (\<lambda>v. [hextable ! unat (drop_bit 4 v), hextable ! unat (v AND 0x0f)]) src)"

subsection \<open>The file system: os.WriteFile, os.Open, os.ReadFile, os.OpenFile\<close>

text \<open>
  The only state of the program is the directory it runs in. A file has its bytes and two
  permissions: whether this process may open it for reading, and for writing. A name
  with no file is \<open>None\<close>. The system calls fail with \<^verbatim>\<open>ENOENT\<close> (the \<^verbatim>\<open>NotFound\<close>
  of the specification) on a missing file and with \<^verbatim>\<open>EACCES\<close> on a missing permission;
  a write to a file that was opened for writing is taken to complete.
\<close>

datatype errno = ENOENT | EACCES

record File =
  contents :: string
  readable :: bool
  writable :: bool

type_synonym fs = "string \<Rightarrow> File option"

text \<open>
  \<^verbatim>\<open>os.WriteFile(name, data, 0600)\<close> opens with \<^verbatim>\<open>O_WRONLY|O_CREATE|O_TRUNC\<close>: a missing
  file is created with mode 0600 (its owner may read and write), an existing one is
  truncated and keeps its mode; then the data is written.
\<close>

definition os_WriteFile :: "string \<Rightarrow> string \<Rightarrow> fs \<Rightarrow> errno option \<times> fs" where
  "os_WriteFile name data fs =
     (case fs name of
        None \<Rightarrow> (None, fs(name \<mapsto> \<lparr>contents = data, readable = True, writable = True\<rparr>))
      | Some f \<Rightarrow>
          if writable f then (None, fs(name \<mapsto> f\<lparr>contents := data\<rparr>))
          else (Some EACCES, fs))"

text \<open>\<^verbatim>\<open>os.Open(name)\<close> opens for reading; the result stands for the bytes the handle reads.\<close>

definition os_Open :: "string \<Rightarrow> fs \<Rightarrow> errno + string" where
  "os_Open name fs =
     (case fs name of
        None \<Rightarrow> Inl ENOENT
      | Some f \<Rightarrow> if readable f then Inr (contents f) else Inl EACCES)"

definition os_ReadFile :: "string \<Rightarrow> fs \<Rightarrow> errno + string" where
  "os_ReadFile name fs =
     (case os_Open name fs of
        Inl err \<Rightarrow> Inl err
      | Inr data \<Rightarrow> Inr data)"

text \<open>
  \<^verbatim>\<open>os.OpenFile(name, os.O_APPEND|os.O_WRONLY, 0644)\<close>: there is no \<^verbatim>\<open>O_CREATE\<close>, so a
  missing file is an error and the mode is not used. \<open>None\<close> is a handle on the file.
\<close>

definition os_OpenFile_append :: "string \<Rightarrow> fs \<Rightarrow> errno option" where
  "os_OpenFile_append name fs =
     (case fs name of
        None \<Rightarrow> Some ENOENT
      | Some f \<Rightarrow> if writable f then None else Some EACCES)"

text \<open>A write through a handle opened with \<^verbatim>\<open>O_APPEND\<close> goes to the end of the file.\<close>

definition file_Write_append :: "string \<Rightarrow> string \<Rightarrow> fs \<Rightarrow> fs" where
  "file_Write_append name data fs =
     (case fs name of
        None \<Rightarrow> fs
      | Some f \<Rightarrow> fs(name \<mapsto> f\<lparr>contents := contents f @ data\<rparr>))"

subsection \<open>bufio.Scanner\<close>

definition MaxScanTokenSize :: nat where
  "MaxScanTokenSize = 64 * 1024"

definition dropCR :: "string \<Rightarrow> string" where
  "dropCR data = (if data \<noteq> [] \<and> last data = CR then butlast data else data)"

text \<open>
  The split function \<^verbatim>\<open>ScanLines(data, atEOF)\<close>: the advance and the token, \<open>None\<close>
  for the \<^verbatim>\<open>nil\<close> token that asks for more data.
\<close>

definition ScanLines :: "string \<Rightarrow> bool \<Rightarrow> nat \<times> string option" where
  "ScanLines data atEOF =
     (if atEOF \<and> data = [] then (0, None)
      else if LF \<in> set data then
        (let i = length (takeWhile (\<lambda>c. c \<noteq> LF) data)
         in (i + 1, Some (dropCR (take i data))))
      else if atEOF then (length data, Some (dropCR data))
      else (0, None))"

text \<open>
  The first call of \<^verbatim>\<open>Scan\<close> on a new scanner over a file with the bytes \<open>data\<close>. The
  buffer grows up to \<^verbatim>\<open>MaxScanTokenSize\<close> bytes; the split function sees what the buffer
  holds. When the full buffer holds no line, \<^verbatim>\<open>Scan\<close> gives up with \<^verbatim>\<open>ErrTooLong\<close>,
  returns false and leaves the token \<^verbatim>\<open>nil\<close> (\<open>None\<close>); when the file ends before the
  buffer is full, the split function is called once more at the end of the file.
\<close>

definition Scanner_Scan :: "string \<Rightarrow> string option" where
  "Scanner_Scan data =
     (case ScanLines (take MaxScanTokenSize data) False of
        (_, Some token) \<Rightarrow> Some token
      | (_, None) \<Rightarrow>
          if MaxScanTokenSize \<le> length data then None
          else snd (ScanLines data True))"

text \<open>\<^verbatim>\<open>Text()\<close> is the last token as a string: empty when there is none.\<close>

definition Scanner_Text :: "string option \<Rightarrow> string" where
  "Scanner_Text token = (case token of None \<Rightarrow> [] | Some t \<Rightarrow> t)"

subsection \<open>log.Logger with the flags LstdFlags\<close>

text \<open>What \<^verbatim>\<open>time.Now()\<close> returned, as \<^verbatim>\<open>t.Date()\<close> and \<^verbatim>\<open>t.Clock()\<close> read it.\<close>

record Time =
  Year :: nat
  Month :: nat
  Day :: nat
  Hour :: nat
  Minute :: nat
  Second :: nat

definition digit_char :: "nat \<Rightarrow> char" where
  "digit_char n = char_of (48 + n)"

text \<open>
  \<^verbatim>\<open>itoa(buf, i, wid)\<close>: the decimal digits of \<open>i\<close>, padded with zeros to the width:
  \<^verbatim>\<open>for i >= 10 || wid > 1 { wid--; q := i / 10; b[bp] = byte('0' + i - q*10); bp--; i = q }\<close>
  and then the last digit \<^verbatim>\<open>b[bp] = byte('0' + i)\<close>.
\<close>

function itoa :: "nat \<Rightarrow> int \<Rightarrow> string" where
  "itoa i wid =
     (if 10 \<le> i \<or> 1 < wid then itoa (i div 10) (wid - 1) @ [digit_char (i - (i div 10) * 10)]
      else [digit_char i])"
  by pat_completeness auto
termination
  by (relation "measure (\<lambda>(i, wid). i + nat wid)") auto

declare itoa.simps [simp del]

text \<open>\<^verbatim>\<open>formatHeader\<close> with \<^verbatim>\<open>Ldate|Ltime\<close>: the prefix, the date, the time.\<close>

definition formatHeader :: "string \<Rightarrow> Time \<Rightarrow> string" where
  "formatHeader prefix t =
     prefix
     @ itoa (Year t) 4 @ ''/'' @ itoa (Month t) 2 @ ''/'' @ itoa (Day t) 2 @ '' ''
     @ itoa (Hour t) 2 @ '':'' @ itoa (Minute t) 2 @ '':'' @ itoa (Second t) 2 @ '' ''"

text \<open>
  \<^verbatim>\<open>logger.Println(v)\<close>: the bytes of the one \<^verbatim>\<open>Write\<close> the logger makes. The message
  is \<^verbatim>\<open>fmt.Sprintln(v)\<close>, the string and a line feed; a line feed is added when the
  buffer does not end with one.
\<close>

definition Logger_Println :: "string \<Rightarrow> Time \<Rightarrow> string \<Rightarrow> string" where
  "Logger_Println prefix t v =
     (let buf = formatHeader prefix t @ (v @ [LF])
      in if buf = [] \<or> last buf \<noteq> LF then buf @ [LF] else buf)"

section \<open>The program\<close>

record Link =
  Destination :: string
  Hash :: string

record LinkAnalytics =
  GoTo :: Link
  Analytics :: string

definition newLink :: "string \<Rightarrow> Link" where
  "newLink destination =
     (let hash = EncodeToString (sha256_Sum (bytes_of destination))
      in \<lparr>Destination = destination, Hash = hash\<rparr>)"

definition save :: "Link \<Rightarrow> fs \<Rightarrow> errno option \<times> fs" where
  "save l fs =
     (let filename = Hash l @ ''.linkanalytics'';
          contents = Destination l @ [LF]
      in os_WriteFile filename contents fs)"

text \<open>
  \<^verbatim>\<open>loadLink\<close> calls \<^verbatim>\<open>scanner.Scan()\<close> once, ignores what it returns and never
  asks for \<^verbatim>\<open>scanner.Err()\<close>: the destination is whatever \<^verbatim>\<open>Text()\<close> holds.
\<close>

definition loadLink :: "string \<Rightarrow> fs \<Rightarrow> errno + Link" where
  "loadLink hash fs =
     (let filename = hash @ ''.linkanalytics''
      in case os_Open filename fs of
           Inl err \<Rightarrow> Inl err
         | Inr data \<Rightarrow>
             (let destination = Scanner_Text (Scanner_Scan data)
              in Inr \<lparr>Destination = destination, Hash = hash\<rparr>))"

definition loadHits :: "string \<Rightarrow> fs \<Rightarrow> errno + string" where
  "loadHits hash fs =
     (let filename = hash @ ''.linkanalytics''
      in case os_ReadFile filename fs of
           Inl err \<Rightarrow> Inl err
         | Inr hits \<Rightarrow> Inr hits)"

text \<open>
  \<^verbatim>\<open>gotHit\<close> takes the time the logger reads from the clock as a parameter. The logger's
  \<^verbatim>\<open>Println\<close> returns nothing, so after the file is open \<^verbatim>\<open>gotHit\<close> returns \<^verbatim>\<open>nil\<close>.
\<close>

definition gotHit :: "string \<Rightarrow> string \<Rightarrow> Time \<Rightarrow> fs \<Rightarrow> errno option \<times> fs" where
  "gotHit hash ua now fs =
     (let filename = hash @ ''.linkanalytics''
      in case os_OpenFile_append filename fs of
           Some err \<Rightarrow> (Some err, fs)
         | None \<Rightarrow> (None, file_Write_append filename (Logger_Println ''hit: '' now ua) fs))"

subsection \<open>The three operations behind the handlers\<close>

text \<open>
  The handlers without their HTTP part. \<^verbatim>\<open>saveHandler\<close> is \<open>registerDestination\<close>: it
  redirects to the identifier, or reports the error of \<^verbatim>\<open>save\<close>. \<^verbatim>\<open>goHandler\<close> and
  \<^verbatim>\<open>collectHandler\<close> are \<open>visit\<close>, \<^verbatim>\<open>analyticsHandler\<close> is \<open>getAnalytics\<close>. Where a
  handler's second call fails, it reports \<^verbatim>\<open>err.Error()\<close> of the first call's error,
  which is \<^verbatim>\<open>nil\<close> there: the request ends in a nil dereference, \<open>NilError\<close>.
\<close>

datatype failure = Error errno | NilError

definition registerDestination :: "string \<Rightarrow> fs \<Rightarrow> (failure + string) \<times> fs" where
  "registerDestination destination fs =
     (let l = newLink destination
      in case save l fs of
           (Some err, fs') \<Rightarrow> (Inl (Error err), fs')
         | (None, fs') \<Rightarrow> (Inr (Hash l), fs'))"

definition visit :: "string \<Rightarrow> string \<Rightarrow> Time \<Rightarrow> fs \<Rightarrow> (failure + string) \<times> fs" where
  "visit m ua now fs =
     (case loadLink m fs of
        Inl err \<Rightarrow> (Inl (Error err), fs)
      | Inr l \<Rightarrow>
          (case gotHit (Hash l) ua now fs of
             (Some err2, fs') \<Rightarrow> (Inl NilError, fs')
           | (None, fs') \<Rightarrow> (Inr (Destination l), fs')))"

definition getAnalytics :: "string \<Rightarrow> fs \<Rightarrow> failure + LinkAnalytics" where
  "getAnalytics m fs =
     (case loadLink m fs of
        Inl err \<Rightarrow> Inl (Error err)
      | Inr l \<Rightarrow>
          (case loadHits m fs of
             Inl err2 \<Rightarrow> Inl NilError
           | Inr h \<Rightarrow> Inr \<lparr>GoTo = l, Analytics = h\<rparr>))"

subsection \<open>Reading the stored bytes as lines\<close>

text \<open>
  Modelled from the spec: the template that displays the analytics is not among the
  sources. The specification's layout is one record per line: the first line is the
  destination, each later line is one hit record. \<open>lines_of\<close> cuts bytes at the line
  feeds (a last piece without a line feed counts when it is not empty), and
  \<open>hit_records\<close> are the lines after the first.
\<close>

fun lines_from :: "string \<Rightarrow> string \<Rightarrow> string list" where
  "lines_from cur [] = (if cur = [] then [] else [cur])"
| "lines_from cur (c # cs) =
     (if c = LF then cur # lines_from [] cs else lines_from (cur @ [c]) cs)"

definition lines_of :: "string \<Rightarrow> string list" where
  "lines_of bytes = lines_from [] bytes"

definition hit_records :: "string \<Rightarrow> string list" where
  "hit_records bytes = tl (lines_of bytes)"

text \<open>The text of one hit record: the prefix, the date and the time, the signature.\<close>

definition hit_record :: "Time \<Rightarrow> string \<Rightarrow> string" where
  "hit_record now ua = formatHeader ''hit: '' now @ ua"

text \<open>The name of the storage unit of an identifier.\<close>

abbreviation unit_name :: "string \<Rightarrow> string" where
  "unit_name hash \<equiv> hash @ ''.linkanalytics''"

text \<open>A storage unit that this process can write (and read), or that does not exist yet.\<close>

definition accessible :: "fs \<Rightarrow> string \<Rightarrow> bool" where
  "accessible fs name =
     (case fs name of None \<Rightarrow> True | Some f \<Rightarrow> readable f \<and> writable f)"

text \<open>A run of visits of one identifier, in order; \<open>None\<close> when one of them fails.\<close>

fun visits :: "string \<Rightarrow> (Time \<times> string) list \<Rightarrow> fs \<Rightarrow> fs option" where
  "visits m [] fs = Some fs"
| "visits m ((now, ua) # hs) fs =
     (case visit m ua now fs of
        (Inl err, fs') \<Rightarrow> None
      | (Inr destination, fs') \<Rightarrow> visits m hs fs')"

text \<open>
  The calls that change the directory, and the directory after a list of calls, made one
  after the other. \<open>call_input\<close> is the string a call has from its client: the
  destination of a registration, the client signature of a visit.
\<close>

datatype call = Register string | Visit string string Time

fun step :: "call \<Rightarrow> fs \<Rightarrow> fs" where
  "step (Register destination) fs = snd (registerDestination destination fs)"
| "step (Visit m ua now) fs = snd (visit m ua now fs)"

definition run :: "call list \<Rightarrow> fs \<Rightarrow> fs" where
  "run calls fs = foldl (\<lambda>fs c. step c fs) fs calls"


section \<open>The identifier\<close>

lemma length_round256: "length (round256 hs kw) = length hs"
  by (induction hs kw rule: round256.induct) (simp_all add: Let_def)

lemma length_foldl_round256: "length (foldl round256 hs xs) = length hs"
  by (induction xs arbitrary: hs) (simp_all add: length_round256)

lemma length_block256: "length (block256 hs p) = length hs"
  by (simp add: block256_def Let_def length_foldl_round256)

lemma length_blocks256: "length (blocks256 hs p) = length hs"
proof (induction hs p rule: blocks256.induct)
  case (1 hs p)
  show ?case
  proof (cases "length p < 64")
    case True
    then show ?thesis by (simp add: blocks256.simps)
  next
    case False
    then have "blocks256 hs p = blocks256 (block256 hs (take 64 p)) (drop 64 p)"
      by (subst blocks256.simps) simp
    with 1 False show ?thesis by (simp add: length_block256)
  qed
qed

lemma length_concat_PutUint32: "length (concat (map PutUint32 ws)) = 4 * length ws"
  by (induction ws) (simp_all add: PutUint32_def)

lemma length_sha256_Sum: "length (sha256_Sum m) = 32"
  by (simp add: sha256_Sum_def length_concat_PutUint32 length_blocks256 init256_def)

lemma length_EncodeToString: "length (EncodeToString src) = 2 * length src"
  by (induction src) (simp_all add: EncodeToString_def)

lemma high_nibble_less: "unat (drop_bit 4 (v :: byte)) < 16"
proof -
  have "unat v < 256"
    using unsigned_less [of v] by simp
  moreover have "unat (drop_bit 4 v) = unat v div 16"
    by (simp add: drop_bit_eq_div unat_div)
  ultimately show ?thesis by simp
qed

lemma low_nibble_less: "unat ((v :: byte) AND 0x0f) < 16"
proof -
  have "unat (v AND 15) \<le> unat (15 :: byte)"
    by (rule word_and_le1 [THEN word_le_nat_alt [THEN iffD1]])
  then show ?thesis by simp
qed

lemma hextable_nth_mem: "n < 16 \<Longrightarrow> hextable ! n \<in> set hextable"
  by (rule nth_mem) (simp add: hextable_def)

lemma set_EncodeToString: "set (EncodeToString src) \<subseteq> set hextable"
  by (auto simp: EncodeToString_def hextable_nth_mem high_nibble_less low_nibble_less)

subsection \<open>Two digests of the standard, computed by the model\<close>

text \<open>
  The model of \<^verbatim>\<open>crypto/sha256\<close> is run on the empty message and on \<^verbatim>\<open>"abc"\<close>, the
  examples of FIPS 180-4: the message schedule in four parts of twelve words, the
  sixty-four rounds in eight parts of eight. The digests are the published ones,
  \<^verbatim>\<open>e3b0c442...\<close> and \<^verbatim>\<open>ba7816bf...\<close>.
\<close>

lemma replicate_numeral_step: "replicate (numeral k) x = x # replicate (pred_numeral k) x"
  by (simp add: numeral_eq_Suc)

lemma words_of_chunk_numeral:
  "words_of_chunk (numeral n) bs = be32 bs # words_of_chunk (pred_numeral n) (drop 4 bs)"
  by (simp add: numeral_eq_Suc)

lemma schedule_numeral:
  "schedule (numeral n) ws =
     schedule (pred_numeral n) ((sigma1 (ws ! 1) + ws ! 6 + sigma0 (ws ! 14) + ws ! 15) # ws)"
  by (simp add: numeral_eq_Suc)

lemma schedule_add: "schedule (m + n) ws = schedule n (schedule m ws)"
  by (induction m arbitrary: ws) simp_all

lemma sha256_empty_chunk:
  "words_of_chunk 16 (pad256 (bytes_of [])) =
     [0x80000000, 0x00000000, 0x00000000, 0x00000000, 0x00000000, 0x00000000,
     0x00000000, 0x00000000, 0x00000000, 0x00000000, 0x00000000, 0x00000000,
     0x00000000, 0x00000000, 0x00000000, 0x00000000]"
  by (simp add: pad256_def PutUint64_def bytes_of_def replicate_numeral_step
      words_of_chunk_numeral be32_def)

lemma sha256_empty_schedule1:
  "schedule 12
     [0x00000000, 0x00000000, 0x00000000, 0x00000000, 0x00000000, 0x00000000,
     0x00000000, 0x00000000, 0x00000000, 0x00000000, 0x00000000, 0x00000000,
     0x00000000, 0x00000000, 0x00000000, 0x80000000] =
     [0x66001800, 0x00162505, 0x0040a000, 0x58080000, 0x80000000, 0x05089542,
     0x00000000, 0x22000800, 0x00000000, 0x00205000, 0x00000000, 0x80000000,
     0x00000000, 0x00000000, 0x00000000, 0x00000000, 0x00000000, 0x00000000,
     0x00000000, 0x00000000, 0x00000000, 0x00000000, 0x00000000, 0x00000000,
     0x00000000, 0x00000000, 0x00000000, 0x80000000]"
  by (simp add: schedule_numeral sigma0_def sigma1_def RotateRight32_def)

lemma sha256_empty_schedule2:
  "schedule 12
     [0x66001800, 0x00162505, 0x0040a000, 0x58080000, 0x80000000, 0x05089542,
     0x00000000, 0x22000800, 0x00000000, 0x00205000, 0x00000000, 0x80000000,
     0x00000000, 0x00000000, 0x00000000, 0x00000000, 0x00000000, 0x00000000,
     0x00000000, 0x00000000, 0x00000000, 0x00000000, 0x00000000, 0x00000000,
     0x00000000, 0x00000000, 0x00000000, 0x80000000] =
     [0x811596a2, 0xa7b67f00, 0xfec2d74a, 0x717cbe96, 0xa37bf116, 0x06886dc6,
     0x284ca766, 0xc3f10094, 0xc9282000, 0xd645f95c, 0x14225508, 0xd6222580,
     0x66001800, 0x00162505, 0x0040a000, 0x58080000, 0x80000000, 0x05089542,
     0x00000000, 0x22000800, 0x00000000, 0x00205000, 0x00000000, 0x80000000,
     0x00000000, 0x00000000, 0x00000000, 0x00000000, 0x00000000, 0x00000000,
     0x00000000, 0x00000000, 0x00000000, 0x00000000, 0x00000000, 0x00000000,
     0x00000000, 0x00000000, 0x00000000, 0x80000000]"
  by (simp add: schedule_numeral sigma0_def sigma1_def RotateRight32_def)

lemma sha256_empty_schedule3:
  "schedule 12
     [0x811596a2, 0xa7b67f00, 0xfec2d74a, 0x717cbe96, 0xa37bf116, 0x06886dc6,
     0x284ca766, 0xc3f10094, 0xc9282000, 0xd645f95c, 0x14225508, 0xd6222580,
     0x66001800, 0x00162505, 0x0040a000, 0x58080000, 0x80000000, 0x05089542,
     0x00000000, 0x22000800, 0x00000000, 0x00205000, 0x00000000, 0x80000000,
     0x00000000, 0x00000000, 0x00000000, 0x00000000, 0x00000000, 0x00000000,
     0x00000000, 0x00000000, 0x00000000, 0x00000000, 0x00000000, 0x00000000,
     0x00000000, 0x00000000, 0x00000000, 0x80000000] =
     [0x01cec9ad, 0x3c15332c, 0x2ca1480d, 0xdefece65, 0x5de54c30, 0xc48d24ef,
     0x249c107f, 0xc3ddca11, 0xb156b935, 0x5d1da7c9, 0x03b20c82, 0x98a6e768,
     0x811596a2, 0xa7b67f00, 0xfec2d74a, 0x717cbe96, 0xa37bf116, 0x06886dc6,
     0x284ca766, 0xc3f10094, 0xc9282000, 0xd645f95c, 0x14225508, 0xd6222580,
     0x66001800, 0x00162505, 0x0040a000, 0x58080000, 0x80000000, 0x05089542,
     0x00000000, 0x22000800, 0x00000000, 0x00205000, 0x00000000, 0x80000000,
     0x00000000, 0x00000000, 0x00000000, 0x00000000, 0x00000000, 0x00000000,
     0x00000000, 0x00000000, 0x00000000, 0x00000000, 0x00000000, 0x00000000,
     0x00000000, 0x00000000, 0x00000000, 0x80000000]"
  by (simp add: schedule_numeral sigma0_def sigma1_def RotateRight32_def)

lemma sha256_empty_schedule4:
  "schedule 12
     [0x01cec9ad, 0x3c15332c, 0x2ca1480d, 0xdefece65, 0x5de54c30, 0xc48d24ef,
     0x249c107f, 0xc3ddca11, 0xb156b935, 0x5d1da7c9, 0x03b20c82, 0x98a6e768,
     0x811596a2, 0xa7b67f00, 0xfec2d74a, 0x717cbe96, 0xa37bf116, 0x06886dc6,
     0x284ca766, 0xc3f10094, 0xc9282000, 0xd645f95c, 0x14225508, 0xd6222580,
     0x66001800, 0x00162505, 0x0040a000, 0x58080000, 0x80000000, 0x05089542,
     0x00000000, 0x22000800, 0x00000000, 0x00205000, 0x00000000, 0x80000000,
     0x00000000, 0x00000000, 0x00000000, 0x00000000, 0x00000000, 0x00000000,
     0x00000000, 0x00000000, 0x00000000, 0x00000000, 0x00000000, 0x00000000,
     0x00000000, 0x00000000, 0x00000000, 0x80000000] =
     [0x3b5ec49b, 0x44bcec5d, 0x5e427188, 0xdcca7608, 0xf808ddc3, 0x07f54f39,
     0x7546587c, 0x029b7007, 0xd2320ba6, 0x361b8fe0, 0x0bacda98, 0x160cccd0,
     0x01cec9ad, 0x3c15332c, 0x2ca1480d, 0xdefece65, 0x5de54c30, 0xc48d24ef,
     0x249c107f, 0xc3ddca11, 0xb156b935, 0x5d1da7c9, 0x03b20c82, 0x98a6e768,
     0x811596a2, 0xa7b67f00, 0xfec2d74a, 0x717cbe96, 0xa37bf116, 0x06886dc6,
     0x284ca766, 0xc3f10094, 0xc9282000, 0xd645f95c, 0x14225508, 0xd6222580,
     0x66001800, 0x00162505, 0x0040a000, 0x58080000, 0x80000000, 0x05089542,
     0x00000000, 0x22000800, 0x00000000, 0x00205000, 0x00000000, 0x80000000,
     0x00000000, 0x00000000, 0x00000000, 0x00000000, 0x00000000, 0x00000000,
     0x00000000, 0x00000000, 0x00000000, 0x00000000, 0x00000000, 0x00000000,
     0x00000000, 0x00000000, 0x00000000, 0x80000000]"
  by (simp add: schedule_numeral sigma0_def sigma1_def RotateRight32_def)

lemma sha256_empty_schedule:
  "schedule 48
     [0x00000000, 0x00000000, 0x00000000, 0x00000000, 0x00000000, 0x00000000,
     0x00000000, 0x00000000, 0x00000000, 0x00000000, 0x00000000, 0x00000000,
     0x00000000, 0x00000000, 0x00000000, 0x80000000] =
     [0x3b5ec49b, 0x44bcec5d, 0x5e427188, 0xdcca7608, 0xf808ddc3, 0x07f54f39,
     0x7546587c, 0x029b7007, 0xd2320ba6, 0x361b8fe0, 0x0bacda98, 0x160cccd0,
     0x01cec9ad, 0x3c15332c, 0x2ca1480d, 0xdefece65, 0x5de54c30, 0xc48d24ef,
     0x249c107f, 0xc3ddca11, 0xb156b935, 0x5d1da7c9, 0x03b20c82, 0x98a6e768,
     0x811596a2, 0xa7b67f00, 0xfec2d74a, 0x717cbe96, 0xa37bf116, 0x06886dc6,
     0x284ca766, 0xc3f10094, 0xc9282000, 0xd645f95c, 0x14225508, 0xd6222580,
     0x66001800, 0x00162505, 0x0040a000, 0x58080000, 0x80000000, 0x05089542,
     0x00000000, 0x22000800, 0x00000000, 0x00205000, 0x00000000, 0x80000000,
     0x00000000, 0x00000000, 0x00000000, 0x00000000, 0x00000000, 0x00000000,
     0x00000000, 0x00000000, 0x00000000, 0x00000000, 0x00000000, 0x00000000,
     0x00000000, 0x00000000, 0x00000000, 0x80000000]"
proof -
  have "schedule 48 ws = schedule 12 (schedule 12 (schedule 12 (schedule 12 ws)))" for ws
    using schedule_add [of 12 36 ws] schedule_add [of 12 24 "schedule 12 ws"]
      schedule_add [of 12 12 "schedule 12 (schedule 12 ws)"] by simp
  then show ?thesis
    by (simp only: sha256_empty_schedule1 sha256_empty_schedule2 sha256_empty_schedule3 sha256_empty_schedule4)
qed

lemma sha256_empty_rounds1:
  "foldl round256
     [0x6a09e667, 0xbb67ae85, 0x3c6ef372, 0xa54ff53a, 0x510e527f, 0x9b05688c,
     0x1f83d9ab, 0x5be0cd19]
     [(0x428a2f98, 0x80000000), (0x71374491, 0x00000000), (0xb5c0fbcf, 0x00000000),
     (0xe9b5dba5, 0x00000000), (0x3956c25b, 0x00000000), (0x59f111f1, 0x00000000),
     (0x923f82a4, 0x00000000), (0xab1c5ed5, 0x00000000)] =
     [0x7ad5b1b6, 0xf0205590, 0x292e3b42, 0x4366f730, 0x53f94dcb, 0x82ede06f,
     0x4f6540fa, 0xe7d0641e]"
  by (simp add: RotateRight32_def Let_def)

lemma sha256_empty_rounds2:
  "foldl round256
     [0x7ad5b1b6, 0xf0205590, 0x292e3b42, 0x4366f730, 0x53f94dcb, 0x82ede06f,
     0x4f6540fa, 0xe7d0641e]
     [(0xd807aa98, 0x00000000), (0x12835b01, 0x00000000), (0x243185be, 0x00000000),
     (0x550c7dc3, 0x00000000), (0x72be5d74, 0x00000000), (0x80deb1fe, 0x00000000),
     (0x9bdc06a7, 0x00000000), (0xc19bf174, 0x00000000)] =
     [0xb40085b5, 0xb88afddb, 0x45c013a7, 0x2102d2cd, 0x5cb8e863, 0x1ccfac39,
     0x2b427296, 0xcdfdfe52]"
  by (simp add: RotateRight32_def Let_def)

lemma sha256_empty_rounds3:
  "foldl round256
     [0xb40085b5, 0xb88afddb, 0x45c013a7, 0x2102d2cd, 0x5cb8e863, 0x1ccfac39,
     0x2b427296, 0xcdfdfe52]
     [(0xe49b69c1, 0x80000000), (0xefbe4786, 0x00000000), (0x0fc19dc6, 0x00205000),
     (0x240ca1cc, 0x00000000), (0x2de92c6f, 0x22000800), (0x4a7484aa, 0x00000000),
     (0x5cb0a9dc, 0x05089542), (0x76f988da, 0x80000000)] =
     [0x985bed55, 0x404d8054, 0x99a6cb19, 0x75c7f0d8, 0x2c2c028d, 0xb1653710,
     0xc287981e, 0x39953ccd]"
  by (simp add: RotateRight32_def Let_def)

lemma sha256_empty_rounds4:
  "foldl round256
     [0x985bed55, 0x404d8054, 0x99a6cb19, 0x75c7f0d8, 0x2c2c028d, 0xb1653710,
     0xc287981e, 0x39953ccd]
     [(0x983e5152, 0x58080000), (0xa831c66d, 0x0040a000), (0xb00327c8, 0x00162505),
     (0xbf597fc7, 0x66001800), (0xc6e00bf3, 0xd6222580), (0xd5a79147, 0x14225508),
     (0x06ca6351, 0xd645f95c), (0x14292967, 0xc9282000)] =
     [0x11e7025f, 0xa0bb0cdf, 0x72d3a00d, 0x64bc9e1c, 0xbbd7846c, 0x564a6626,
     0xb04ab22d, 0x95696b75]"
  by (simp add: RotateRight32_def Let_def)

lemma sha256_empty_rounds5:
  "foldl round256
     [0x11e7025f, 0xa0bb0cdf, 0x72d3a00d, 0x64bc9e1c, 0xbbd7846c, 0x564a6626,
     0xb04ab22d, 0x95696b75]
     [(0x27b70a85, 0xc3f10094), (0x2e1b2138, 0x284ca766), (0x4d2c6dfc, 0x06886dc6),
     (0x53380d13, 0xa37bf116), (0x650a7354, 0x717cbe96), (0x766a0abb, 0xfec2d74a),
     (0x81c2c92e, 0xa7b67f00), (0x92722c85, 0x811596a2)] =
     [0x499911b1, 0x9e58e42f, 0x56e3dc4e, 0xa096535d, 0x716bb025, 0x85a71424,
     0xe807ea7f, 0xfac06aed]"
  by (simp add: RotateRight32_def Let_def)

lemma sha256_empty_rounds6:
  "foldl round256
     [0x499911b1, 0x9e58e42f, 0x56e3dc4e, 0xa096535d, 0x716bb025, 0x85a71424,
     0xe807ea7f, 0xfac06aed]
     [(0xa2bfe8a1, 0x98a6e768), (0xa81a664b, 0x03b20c82), (0xc24b8b70, 0x5d1da7c9),
     (0xc76c51a3, 0xb156b935), (0xd192e819, 0xc3ddca11), (0xd6990624, 0x249c107f),
     (0xf40e3585, 0xc48d24ef), (0x106aa070, 0x5de54c30)] =
     [0x365a34cd, 0x54982d6c, 0x32fa442b, 0xa40972d4, 0xcbb3f8eb, 0x8a6a82b2,
     0xd285c679, 0xaa2c1810]"
  by (simp add: RotateRight32_def Let_def)

lemma sha256_empty_rounds7:
  "foldl round256
     [0x365a34cd, 0x54982d6c, 0x32fa442b, 0xa40972d4, 0xcbb3f8eb, 0x8a6a82b2,
     0xd285c679, 0xaa2c1810]
     [(0x19a4c116, 0xdefece65), (0x1e376c08, 0x2ca1480d), (0x2748774c, 0x3c15332c),
     (0x34b0bcb5, 0x01cec9ad), (0x391c0cb3, 0x160cccd0), (0x4ed8aa4a, 0x0bacda98),
     (0x5b9cca4f, 0x361b8fe0), (0x682e6ff3, 0xd2320ba6)] =
     [0x01638014, 0x2caf58ca, 0x3a0e9477, 0xb1b29c90, 0xadf94e0a, 0xe588e598,
     0xfd99936e, 0x43a5def8]"
  by (simp add: RotateRight32_def Let_def)

lemma sha256_empty_rounds8:
  "foldl round256
     [0x01638014, 0x2caf58ca, 0x3a0e9477, 0xb1b29c90, 0xadf94e0a, 0xe588e598,
     0xfd99936e, 0x43a5def8]
     [(0x748f82ee, 0x029b7007), (0x78a5636f, 0x7546587c), (0x84c87814, 0x07f54f39),
     (0x8cc70208, 0xf808ddc3), (0x90befffa, 0xdcca7608), (0xa4506ceb, 0x5e427188),
     (0xbef9a3f7, 0x44bcec5d), (0xc67178f2, 0x3b5ec49b)] =
     [0x79a6dddb, 0xdd946d8f, 0x5e8d0156, 0xf41fc3ea, 0xd69fef65, 0xc9962ac0,
     0x8511bf70, 0x1c71eb3c]"
  by (simp add: RotateRight32_def Let_def)

lemma sha256_empty_rounds:
  "foldl round256 init256 (zip K256
     [0x80000000, 0x00000000, 0x00000000, 0x00000000, 0x00000000, 0x00000000,
     0x00000000, 0x00000000, 0x00000000, 0x00000000, 0x00000000, 0x00000000,
     0x00000000, 0x00000000, 0x00000000, 0x00000000, 0x80000000, 0x00000000,
     0x00205000, 0x00000000, 0x22000800, 0x00000000, 0x05089542, 0x80000000,
     0x58080000, 0x0040a000, 0x00162505, 0x66001800, 0xd6222580, 0x14225508,
     0xd645f95c, 0xc9282000, 0xc3f10094, 0x284ca766, 0x06886dc6, 0xa37bf116,
     0x717cbe96, 0xfec2d74a, 0xa7b67f00, 0x811596a2, 0x98a6e768, 0x03b20c82,
     0x5d1da7c9, 0xb156b935, 0xc3ddca11, 0x249c107f, 0xc48d24ef, 0x5de54c30,
     0xdefece65, 0x2ca1480d, 0x3c15332c, 0x01cec9ad, 0x160cccd0, 0x0bacda98,
     0x361b8fe0, 0xd2320ba6, 0x029b7007, 0x7546587c, 0x07f54f39, 0xf808ddc3,
     0xdcca7608, 0x5e427188, 0x44bcec5d, 0x3b5ec49b]) =
     [0x79a6dddb, 0xdd946d8f, 0x5e8d0156, 0xf41fc3ea, 0xd69fef65, 0xc9962ac0,
     0x8511bf70, 0x1c71eb3c]"
proof -
  have "zip K256
     [0x80000000, 0x00000000, 0x00000000, 0x00000000, 0x00000000, 0x00000000,
     0x00000000, 0x00000000, 0x00000000, 0x00000000, 0x00000000, 0x00000000,
     0x00000000, 0x00000000, 0x00000000, 0x00000000, 0x80000000, 0x00000000,
     0x00205000, 0x00000000, 0x22000800, 0x00000000, 0x05089542, 0x80000000,
     0x58080000, 0x0040a000, 0x00162505, 0x66001800, 0xd6222580, 0x14225508,
     0xd645f95c, 0xc9282000, 0xc3f10094, 0x284ca766, 0x06886dc6, 0xa37bf116,
     0x717cbe96, 0xfec2d74a, 0xa7b67f00, 0x811596a2, 0x98a6e768, 0x03b20c82,
     0x5d1da7c9, 0xb156b935, 0xc3ddca11, 0x249c107f, 0xc48d24ef, 0x5de54c30,
     0xdefece65, 0x2ca1480d, 0x3c15332c, 0x01cec9ad, 0x160cccd0, 0x0bacda98,
     0x361b8fe0, 0xd2320ba6, 0x029b7007, 0x7546587c, 0x07f54f39, 0xf808ddc3,
     0xdcca7608, 0x5e427188, 0x44bcec5d, 0x3b5ec49b] =
       ([(0x428a2f98, 0x80000000), (0x71374491, 0x00000000), (0xb5c0fbcf, 0x00000000),
       (0xe9b5dba5, 0x00000000), (0x3956c25b, 0x00000000), (0x59f111f1, 0x00000000),
       (0x923f82a4, 0x00000000), (0xab1c5ed5, 0x00000000)]
     @ [(0xd807aa98, 0x00000000), (0x12835b01, 0x00000000), (0x243185be, 0x00000000),
       (0x550c7dc3, 0x00000000), (0x72be5d74, 0x00000000), (0x80deb1fe, 0x00000000),
       (0x9bdc06a7, 0x00000000), (0xc19bf174, 0x00000000)]
     @ [(0xe49b69c1, 0x80000000), (0xefbe4786, 0x00000000), (0x0fc19dc6, 0x00205000),
       (0x240ca1cc, 0x00000000), (0x2de92c6f, 0x22000800), (0x4a7484aa, 0x00000000),
       (0x5cb0a9dc, 0x05089542), (0x76f988da, 0x80000000)]
     @ [(0x983e5152, 0x58080000), (0xa831c66d, 0x0040a000), (0xb00327c8, 0x00162505),
       (0xbf597fc7, 0x66001800), (0xc6e00bf3, 0xd6222580), (0xd5a79147, 0x14225508),
       (0x06ca6351, 0xd645f95c), (0x14292967, 0xc9282000)]
     @ [(0x27b70a85, 0xc3f10094), (0x2e1b2138, 0x284ca766), (0x4d2c6dfc, 0x06886dc6),
       (0x53380d13, 0xa37bf116), (0x650a7354, 0x717cbe96), (0x766a0abb, 0xfec2d74a),
       (0x81c2c92e, 0xa7b67f00), (0x92722c85, 0x811596a2)]
     @ [(0xa2bfe8a1, 0x98a6e768), (0xa81a664b, 0x03b20c82), (0xc24b8b70, 0x5d1da7c9),
       (0xc76c51a3, 0xb156b935), (0xd192e819, 0xc3ddca11), (0xd6990624, 0x249c107f),
       (0xf40e3585, 0xc48d24ef), (0x106aa070, 0x5de54c30)]
     @ [(0x19a4c116, 0xdefece65), (0x1e376c08, 0x2ca1480d), (0x2748774c, 0x3c15332c),
       (0x34b0bcb5, 0x01cec9ad), (0x391c0cb3, 0x160cccd0), (0x4ed8aa4a, 0x0bacda98),
       (0x5b9cca4f, 0x361b8fe0), (0x682e6ff3, 0xd2320ba6)]
     @ [(0x748f82ee, 0x029b7007), (0x78a5636f, 0x7546587c), (0x84c87814, 0x07f54f39),
       (0x8cc70208, 0xf808ddc3), (0x90befffa, 0xdcca7608), (0xa4506ceb, 0x5e427188),
       (0xbef9a3f7, 0x44bcec5d), (0xc67178f2, 0x3b5ec49b)] :: (uint32 \<times> uint32) list)"
    by (simp add: K256_def)
  then show ?thesis
    unfolding init256_def by (simp only: foldl_append sha256_empty_rounds1 sha256_empty_rounds2 sha256_empty_rounds3 sha256_empty_rounds4 sha256_empty_rounds5 sha256_empty_rounds6 sha256_empty_rounds7 sha256_empty_rounds8)
qed

lemma sha256_empty_block:
  "blocks256 init256 (pad256 (bytes_of [])) =
     [0xe3b0c442, 0x98fc1c14, 0x9afbf4c8, 0x996fb924, 0x27ae41e4, 0x649b934c,
     0xa495991b, 0x7852b855]"
proof -
  have len: "length (pad256 (bytes_of [])) = 64"
    by (simp add: pad256_def PutUint64_def bytes_of_def)
  then have "blocks256 init256 (pad256 (bytes_of [])) = block256 init256 (pad256 (bytes_of []))"
    by (simp add: blocks256.simps [of init256] blocks256.simps [of _ "[]"])
  also have "\<dots> = map2 (+) init256
     [0x79a6dddb, 0xdd946d8f, 0x5e8d0156, 0xf41fc3ea, 0xd69fef65, 0xc9962ac0,
     0x8511bf70, 0x1c71eb3c]"
    using len by (simp add: block256_def sha256_empty_chunk sha256_empty_schedule sha256_empty_rounds)
  also have "\<dots> =
     [0xe3b0c442, 0x98fc1c14, 0x9afbf4c8, 0x996fb924, 0x27ae41e4, 0x649b934c,
     0xa495991b, 0x7852b855]"
    by (simp add: init256_def)
  finally show ?thesis .
qed

lemma sha256_empty_digest:
  "EncodeToString (sha256_Sum (bytes_of [])) =
     ''e3b0c44298fc1c149afbf4c8996fb92427ae41e4649b934ca495991b7852b855''"
  by (simp add: sha256_Sum_def sha256_empty_block PutUint32_def EncodeToString_def hextable_def)

lemma sha256_abc_chunk:
  "words_of_chunk 16 (pad256 (bytes_of ''abc'')) =
     [0x61626380, 0x00000000, 0x00000000, 0x00000000, 0x00000000, 0x00000000,
     0x00000000, 0x00000000, 0x00000000, 0x00000000, 0x00000000, 0x00000000,
     0x00000000, 0x00000000, 0x00000000, 0x00000018]"
  by (simp add: pad256_def PutUint64_def bytes_of_def replicate_numeral_step
      words_of_chunk_numeral be32_def)

lemma sha256_abc_schedule1:
  "schedule 12
     [0x00000018, 0x00000000, 0x00000000, 0x00000000, 0x00000000, 0x00000000,
     0x00000000, 0x00000000, 0x00000000, 0x00000000, 0x00000000, 0x00000000,
     0x00000000, 0x00000000, 0x00000000, 0x61626380] =
     [0x32663c5b, 0xe5bc3909, 0xb73679a2, 0xc8215c1a, 0xe2e2c38e, 0x12dcbfdb,
     0x0183fc00, 0x3e9d7b78, 0x600003c6, 0x7da86405, 0x000f0000, 0x61626380,
     0x00000018, 0x00000000, 0x00000000, 0x00000000, 0x00000000, 0x00000000,
     0x00000000, 0x00000000, 0x00000000, 0x00000000, 0x00000000, 0x00000000,
     0x00000000, 0x00000000, 0x00000000, 0x61626380]"
  by (simp add: schedule_numeral sigma0_def sigma1_def RotateRight32_def)

lemma sha256_abc_schedule2:
  "schedule 12
     [0x32663c5b, 0xe5bc3909, 0xb73679a2, 0xc8215c1a, 0xe2e2c38e, 0x12dcbfdb,
     0x0183fc00, 0x3e9d7b78, 0x600003c6, 0x7da86405, 0x000f0000, 0x61626380,
     0x00000018, 0x00000000, 0x00000000, 0x00000000, 0x00000000, 0x00000000,
     0x00000000, 0x00000000, 0x00000000, 0x00000000, 0x00000000, 0x00000000,
     0x00000000, 0x00000000, 0x00000000, 0x61626380] =
     [0x24641522, 0x9409e33e, 0x72af830a, 0x0a8b3996, 0xf10a5c62, 0xaff4ffc1,
     0x3b68ba73, 0x93f5997f, 0xd3b7973b, 0x702138a4, 0xec8726cb, 0x9d209d67,
     0x32663c5b, 0xe5bc3909, 0xb73679a2, 0xc8215c1a, 0xe2e2c38e, 0x12dcbfdb,
     0x0183fc00, 0x3e9d7b78, 0x600003c6, 0x7da86405, 0x000f0000, 0x61626380,
     0x00000018, 0x00000000, 0x00000000, 0x00000000, 0x00000000, 0x00000000,
     0x00000000, 0x00000000, 0x00000000, 0x00000000, 0x00000000, 0x00000000,
     0x00000000, 0x00000000, 0x00000000, 0x61626380]"
  by (simp add: schedule_numeral sigma0_def sigma1_def RotateRight32_def)

lemma sha256_abc_schedule3:
  "schedule 12
     [0x24641522, 0x9409e33e, 0x72af830a, 0x0a8b3996, 0xf10a5c62, 0xaff4ffc1,
     0x3b68ba73, 0x93f5997f, 0xd3b7973b, 0x702138a4, 0xec8726cb, 0x9d209d67,
     0x32663c5b, 0xe5bc3909, 0xb73679a2, 0xc8215c1a, 0xe2e2c38e, 0x12dcbfdb,
     0x0183fc00, 0x3e9d7b78, 0x600003c6, 0x7da86405, 0x000f0000, 0x61626380,
     0x00000018, 0x00000000, 0x00000000, 0x00000000, 0x00000000, 0x00000000,
     0x00000000, 0x00000000, 0x00000000, 0x00000000, 0x00000000, 0x00000000,
     0x00000000, 0x00000000, 0x00000000, 0x61626380] =
     [0xa9993667, 0xb9e66c34, 0xcc7617db, 0xfb3e89cb, 0x065c43da, 0x7a290d5d,
     0x840abf27, 0x0c4763f2, 0x27333ba3, 0x3e246a79, 0xf0a64f5a, 0x9f47bf94,
     0x24641522, 0x9409e33e, 0x72af830a, 0x0a8b3996, 0xf10a5c62, 0xaff4ffc1,
     0x3b68ba73, 0x93f5997f, 0xd3b7973b, 0x702138a4, 0xec8726cb, 0x9d209d67,
     0x32663c5b, 0xe5bc3909, 0xb73679a2, 0xc8215c1a, 0xe2e2c38e, 0x12dcbfdb,
     0x0183fc00, 0x3e9d7b78, 0x600003c6, 0x7da86405, 0x000f0000, 0x61626380,
     0x00000018, 0x00000000, 0x00000000, 0x00000000, 0x00000000, 0x00000000,
     0x00000000, 0x00000000, 0x00000000, 0x00000000, 0x00000000, 0x00000000,
     0x00000000, 0x00000000, 0x00000000, 0x61626380]"
  by (simp add: schedule_numeral sigma0_def sigma1_def RotateRight32_def)

lemma sha256_abc_schedule4:
  "schedule 12
     [0xa9993667, 0xb9e66c34, 0xcc7617db, 0xfb3e89cb, 0x065c43da, 0x7a290d5d,
     0x840abf27, 0x0c4763f2, 0x27333ba3, 0x3e246a79, 0xf0a64f5a, 0x9f47bf94,
     0x24641522, 0x9409e33e, 0x72af830a, 0x0a8b3996, 0xf10a5c62, 0xaff4ffc1,
     0x3b68ba73, 0x93f5997f, 0xd3b7973b, 0x702138a4, 0xec8726cb, 0x9d209d67,
     0x32663c5b, 0xe5bc3909, 0xb73679a2, 0xc8215c1a, 0xe2e2c38e, 0x12dcbfdb,
     0x0183fc00, 0x3e9d7b78, 0x600003c6, 0x7da86405, 0x000f0000, 0x61626380,
     0x00000018, 0x00000000, 0x00000000, 0x00000000, 0x00000000, 0x00000000,
     0x00000000, 0x00000000, 0x00000000, 0x00000000, 0x00000000, 0x00000000,
     0x00000000, 0x00000000, 0x00000000, 0x61626380] =
     [0x12b1edeb, 0xeeaba2cc, 0x668b2ff8, 0xa43fcf15, 0x78bc8d4b, 0x9fe3095e,
     0xebe6b238, 0xef57b9cd, 0xb20f7a99, 0x1487472c, 0xc21462bc, 0x84badedd,
     0xa9993667, 0xb9e66c34, 0xcc7617db, 0xfb3e89cb, 0x065c43da, 0x7a290d5d,
     0x840abf27, 0x0c4763f2, 0x27333ba3, 0x3e246a79, 0xf0a64f5a, 0x9f47bf94,
     0x24641522, 0x9409e33e, 0x72af830a, 0x0a8b3996, 0xf10a5c62, 0xaff4ffc1,
     0x3b68ba73, 0x93f5997f, 0xd3b7973b, 0x702138a4, 0xec8726cb, 0x9d209d67,
     0x32663c5b, 0xe5bc3909, 0xb73679a2, 0xc8215c1a, 0xe2e2c38e, 0x12dcbfdb,
     0x0183fc00, 0x3e9d7b78, 0x600003c6, 0x7da86405, 0x000f0000, 0x61626380,
     0x00000018, 0x00000000, 0x00000000, 0x00000000, 0x00000000, 0x00000000,
     0x00000000, 0x00000000, 0x00000000, 0x00000000, 0x00000000, 0x00000000,
     0x00000000, 0x00000000, 0x00000000, 0x61626380]"
  by (simp add: schedule_numeral sigma0_def sigma1_def RotateRight32_def)

lemma sha256_abc_schedule:
  "schedule 48
     [0x00000018, 0x00000000, 0x00000000, 0x00000000, 0x00000000, 0x00000000,
     0x00000000, 0x00000000, 0x00000000, 0x00000000, 0x00000000, 0x00000000,
     0x00000000, 0x00000000, 0x00000000, 0x61626380] =
     [0x12b1edeb, 0xeeaba2cc, 0x668b2ff8, 0xa43fcf15, 0x78bc8d4b, 0x9fe3095e,
     0xebe6b238, 0xef57b9cd, 0xb20f7a99, 0x1487472c, 0xc21462bc, 0x84badedd,
     0xa9993667, 0xb9e66c34, 0xcc7617db, 0xfb3e89cb, 0x065c43da, 0x7a290d5d,
     0x840abf27, 0x0c4763f2, 0x27333ba3, 0x3e246a79, 0xf0a64f5a, 0x9f47bf94,
     0x24641522, 0x9409e33e, 0x72af830a, 0x0a8b3996, 0xf10a5c62, 0xaff4ffc1,
     0x3b68ba73, 0x93f5997f, 0xd3b7973b, 0x702138a4, 0xec8726cb, 0x9d209d67,
     0x32663c5b, 0xe5bc3909, 0xb73679a2, 0xc8215c1a, 0xe2e2c38e, 0x12dcbfdb,
     0x0183fc00, 0x3e9d7b78, 0x600003c6, 0x7da86405, 0x000f0000, 0x61626380,
     0x00000018, 0x00000000, 0x00000000, 0x00000000, 0x00000000, 0x00000000,
     0x00000000, 0x00000000, 0x00000000, 0x00000000, 0x00000000, 0x00000000,
     0x00000000, 0x00000000, 0x00000000, 0x61626380]"
proof -
  have "schedule 48 ws = schedule 12 (schedule 12 (schedule 12 (schedule 12 ws)))" for ws
    using schedule_add [of 12 36 ws] schedule_add [of 12 24 "schedule 12 ws"]
      schedule_add [of 12 12 "schedule 12 (schedule 12 ws)"] by simp
  then show ?thesis
    by (simp only: sha256_abc_schedule1 sha256_abc_schedule2 sha256_abc_schedule3 sha256_abc_schedule4)
qed

lemma sha256_abc_rounds1:
  "foldl round256
     [0x6a09e667, 0xbb67ae85, 0x3c6ef372, 0xa54ff53a, 0x510e527f, 0x9b05688c,
     0x1f83d9ab, 0x5be0cd19]
     [(0x428a2f98, 0x61626380), (0x71374491, 0x00000000), (0xb5c0fbcf, 0x00000000),
     (0xe9b5dba5, 0x00000000), (0x3956c25b, 0x00000000), (0x59f111f1, 0x00000000),
     (0x923f82a4, 0x00000000), (0xab1c5ed5, 0x00000000)] =
     [0x85a07b5f, 0xe5030380, 0x2b4209f5, 0x04409a6a, 0x0c657a79, 0x9b27a401,
     0x714260ad, 0x43ada245]"
  by (simp add: RotateRight32_def Let_def)

lemma sha256_abc_rounds2:
  "foldl round256
     [0x85a07b5f, 0xe5030380, 0x2b4209f5, 0x04409a6a, 0x0c657a79, 0x9b27a401,
     0x714260ad, 0x43ada245]
     [(0xd807aa98, 0x00000000), (0x12835b01, 0x00000000), (0x243185be, 0x00000000),
     (0x550c7dc3, 0x00000000), (0x72be5d74, 0x00000000), (0x80deb1fe, 0x00000000),
     (0x9bdc06a7, 0x00000000), (0xc19bf174, 0x00000018)] =
     [0xb0fa238e, 0xc0645fde, 0xd932eb16, 0x87912990, 0x07590dcd, 0x0b92f20c,
     0x745a48de, 0x1e578218]"
  by (simp add: RotateRight32_def Let_def)

lemma sha256_abc_rounds3:
  "foldl round256
     [0xb0fa238e, 0xc0645fde, 0xd932eb16, 0x87912990, 0x07590dcd, 0x0b92f20c,
     0x745a48de, 0x1e578218]
     [(0xe49b69c1, 0x61626380), (0xefbe4786, 0x000f0000), (0x0fc19dc6, 0x7da86405),
     (0x240ca1cc, 0x600003c6), (0x2de92c6f, 0x3e9d7b78), (0x4a7484aa, 0x0183fc00),
     (0x5cb0a9dc, 0x12dcbfdb), (0x76f988da, 0xe2e2c38e)] =
     [0xc5d53d8d, 0xa7a3623f, 0xc2606d6d, 0x9dc68b63, 0xaa47c347, 0x49f5114a,
     0xe1257970, 0x8ada8930]"
  by (simp add: RotateRight32_def Let_def)

lemma sha256_abc_rounds4:
  "foldl round256
     [0xc5d53d8d, 0xa7a3623f, 0xc2606d6d, 0x9dc68b63, 0xaa47c347, 0x49f5114a,
     0xe1257970, 0x8ada8930]
     [(0x983e5152, 0xc8215c1a), (0xa831c66d, 0xb73679a2), (0xb00327c8, 0xe5bc3909),
     (0xbf597fc7, 0x32663c5b), (0xc6e00bf3, 0x9d209d67), (0xd5a79147, 0xec8726cb),
     (0x06ca6351, 0x702138a4), (0x14292967, 0xd3b7973b)] =
     [0x73b33bf5, 0xea992a22, 0xa0060b30, 0x363482c9, 0xba591112, 0x0109ab3a,
     0xade79437, 0x6112a3b7]"
  by (simp add: RotateRight32_def Let_def)

lemma sha256_abc_rounds5:
  "foldl round256
     [0x73b33bf5, 0xea992a22, 0xa0060b30, 0x363482c9, 0xba591112, 0x0109ab3a,
     0xade79437, 0x6112a3b7]
     [(0x27b70a85, 0x93f5997f), (0x2e1b2138, 0x3b68ba73), (0x4d2c6dfc, 0xaff4ffc1),
     (0x53380d13, 0xf10a5c62), (0x650a7354, 0x0a8b3996), (0x766a0abb, 0x72af830a),
     (0x81c2c92e, 0x9409e33e), (0x92722c85, 0x24641522)] =
     [0x79ea687a, 0x6dc57a8a, 0x34df1604, 0x41a65cb1, 0x1efbc0a0, 0xf0781bc8,
     0xa507a53d, 0x0772a26b]"
  by (simp add: RotateRight32_def Let_def)

lemma sha256_abc_rounds6:
  "foldl round256
     [0x79ea687a, 0x6dc57a8a, 0x34df1604, 0x41a65cb1, 0x1efbc0a0, 0xf0781bc8,
     0xa507a53d, 0x0772a26b]
     [(0xa2bfe8a1, 0x9f47bf94), (0xa81a664b, 0xf0a64f5a), (0xc24b8b70, 0x3e246a79),
     (0xc76c51a3, 0x27333ba3), (0xd192e819, 0x0c4763f2), (0xd6990624, 0x840abf27),
     (0xf40e3585, 0x7a290d5d), (0x106aa070, 0x065c43da)] =
     [0x4172328d, 0xa14c14b0, 0x72ab4b91, 0x26628815, 0xfecf0bc6, 0xd57b94a9,
     0xb7755da1, 0xa80f11f0]"
  by (simp add: RotateRight32_def Let_def)

lemma sha256_abc_rounds7:
  "foldl round256
     [0x4172328d, 0xa14c14b0, 0x72ab4b91, 0x26628815, 0xfecf0bc6, 0xd57b94a9,
     0xb7755da1, 0xa80f11f0]
     [(0x19a4c116, 0xfb3e89cb), (0x1e376c08, 0xcc7617db), (0x2748774c, 0xb9e66c34),
     (0x34b0bcb5, 0xa9993667), (0x391c0cb3, 0x84badedd), (0x4ed8aa4a, 0xc21462bc),
     (0x5b9cca4f, 0x1487472c), (0x682e6ff3, 0xb20f7a99)] =
     [0x38cc9913, 0x3ec45cdb, 0xf5702fdb, 0x101fd28f, 0x54cb266b, 0xe50e1b4f,
     0x9f4787c3, 0x529e7d00]"
  by (simp add: RotateRight32_def Let_def)

lemma sha256_abc_rounds8:
  "foldl round256
     [0x38cc9913, 0x3ec45cdb, 0xf5702fdb, 0x101fd28f, 0x54cb266b, 0xe50e1b4f,
     0x9f4787c3, 0x529e7d00]
     [(0x748f82ee, 0xef57b9cd), (0x78a5636f, 0xebe6b238), (0x84c87814, 0x9fe3095e),
     (0x8cc70208, 0x78bc8d4b), (0x90befffa, 0xa43fcf15), (0xa4506ceb, 0x668b2ff8),
     (0xbef9a3f7, 0xeeaba2cc), (0xc67178f2, 0x12b1edeb)] =
     [0x506e3058, 0xd39a2165, 0x04d24d6c, 0xb85e2ce9, 0x5ef50f24, 0xfb121210,
     0x948d25b6, 0x961f4894]"
  by (simp add: RotateRight32_def Let_def)

lemma sha256_abc_rounds:
  "foldl round256 init256 (zip K256
     [0x61626380, 0x00000000, 0x00000000, 0x00000000, 0x00000000, 0x00000000,
     0x00000000, 0x00000000, 0x00000000, 0x00000000, 0x00000000, 0x00000000,
     0x00000000, 0x00000000, 0x00000000, 0x00000018, 0x61626380, 0x000f0000,
     0x7da86405, 0x600003c6, 0x3e9d7b78, 0x0183fc00, 0x12dcbfdb, 0xe2e2c38e,
     0xc8215c1a, 0xb73679a2, 0xe5bc3909, 0x32663c5b, 0x9d209d67, 0xec8726cb,
     0x702138a4, 0xd3b7973b, 0x93f5997f, 0x3b68ba73, 0xaff4ffc1, 0xf10a5c62,
     0x0a8b3996, 0x72af830a, 0x9409e33e, 0x24641522, 0x9f47bf94, 0xf0a64f5a,
     0x3e246a79, 0x27333ba3, 0x0c4763f2, 0x840abf27, 0x7a290d5d, 0x065c43da,
     0xfb3e89cb, 0xcc7617db, 0xb9e66c34, 0xa9993667, 0x84badedd, 0xc21462bc,
     0x1487472c, 0xb20f7a99, 0xef57b9cd, 0xebe6b238, 0x9fe3095e, 0x78bc8d4b,
     0xa43fcf15, 0x668b2ff8, 0xeeaba2cc, 0x12b1edeb]) =
     [0x506e3058, 0xd39a2165, 0x04d24d6c, 0xb85e2ce9, 0x5ef50f24, 0xfb121210,
     0x948d25b6, 0x961f4894]"
proof -
  have "zip K256
     [0x61626380, 0x00000000, 0x00000000, 0x00000000, 0x00000000, 0x00000000,
     0x00000000, 0x00000000, 0x00000000, 0x00000000, 0x00000000, 0x00000000,
     0x00000000, 0x00000000, 0x00000000, 0x00000018, 0x61626380, 0x000f0000,
     0x7da86405, 0x600003c6, 0x3e9d7b78, 0x0183fc00, 0x12dcbfdb, 0xe2e2c38e,
     0xc8215c1a, 0xb73679a2, 0xe5bc3909, 0x32663c5b, 0x9d209d67, 0xec8726cb,
     0x702138a4, 0xd3b7973b, 0x93f5997f, 0x3b68ba73, 0xaff4ffc1, 0xf10a5c62,
     0x0a8b3996, 0x72af830a, 0x9409e33e, 0x24641522, 0x9f47bf94, 0xf0a64f5a,
     0x3e246a79, 0x27333ba3, 0x0c4763f2, 0x840abf27, 0x7a290d5d, 0x065c43da,
     0xfb3e89cb, 0xcc7617db, 0xb9e66c34, 0xa9993667, 0x84badedd, 0xc21462bc,
     0x1487472c, 0xb20f7a99, 0xef57b9cd, 0xebe6b238, 0x9fe3095e, 0x78bc8d4b,
     0xa43fcf15, 0x668b2ff8, 0xeeaba2cc, 0x12b1edeb] =
       ([(0x428a2f98, 0x61626380), (0x71374491, 0x00000000), (0xb5c0fbcf, 0x00000000),
       (0xe9b5dba5, 0x00000000), (0x3956c25b, 0x00000000), (0x59f111f1, 0x00000000),
       (0x923f82a4, 0x00000000), (0xab1c5ed5, 0x00000000)]
     @ [(0xd807aa98, 0x00000000), (0x12835b01, 0x00000000), (0x243185be, 0x00000000),
       (0x550c7dc3, 0x00000000), (0x72be5d74, 0x00000000), (0x80deb1fe, 0x00000000),
       (0x9bdc06a7, 0x00000000), (0xc19bf174, 0x00000018)]
     @ [(0xe49b69c1, 0x61626380), (0xefbe4786, 0x000f0000), (0x0fc19dc6, 0x7da86405),
       (0x240ca1cc, 0x600003c6), (0x2de92c6f, 0x3e9d7b78), (0x4a7484aa, 0x0183fc00),
       (0x5cb0a9dc, 0x12dcbfdb), (0x76f988da, 0xe2e2c38e)]
     @ [(0x983e5152, 0xc8215c1a), (0xa831c66d, 0xb73679a2), (0xb00327c8, 0xe5bc3909),
       (0xbf597fc7, 0x32663c5b), (0xc6e00bf3, 0x9d209d67), (0xd5a79147, 0xec8726cb),
       (0x06ca6351, 0x702138a4), (0x14292967, 0xd3b7973b)]
     @ [(0x27b70a85, 0x93f5997f), (0x2e1b2138, 0x3b68ba73), (0x4d2c6dfc, 0xaff4ffc1),
       (0x53380d13, 0xf10a5c62), (0x650a7354, 0x0a8b3996), (0x766a0abb, 0x72af830a),
       (0x81c2c92e, 0x9409e33e), (0x92722c85, 0x24641522)]
     @ [(0xa2bfe8a1, 0x9f47bf94), (0xa81a664b, 0xf0a64f5a), (0xc24b8b70, 0x3e246a79),
       (0xc76c51a3, 0x27333ba3), (0xd192e819, 0x0c4763f2), (0xd6990624, 0x840abf27),
       (0xf40e3585, 0x7a290d5d), (0x106aa070, 0x065c43da)]
     @ [(0x19a4c116, 0xfb3e89cb), (0x1e376c08, 0xcc7617db), (0x2748774c, 0xb9e66c34),
       (0x34b0bcb5, 0xa9993667), (0x391c0cb3, 0x84badedd), (0x4ed8aa4a, 0xc21462bc),
       (0x5b9cca4f, 0x1487472c), (0x682e6ff3, 0xb20f7a99)]
     @ [(0x748f82ee, 0xef57b9cd), (0x78a5636f, 0xebe6b238), (0x84c87814, 0x9fe3095e),
       (0x8cc70208, 0x78bc8d4b), (0x90befffa, 0xa43fcf15), (0xa4506ceb, 0x668b2ff8),
       (0xbef9a3f7, 0xeeaba2cc), (0xc67178f2, 0x12b1edeb)] :: (uint32 \<times> uint32) list)"
    by (simp add: K256_def)
  then show ?thesis
    unfolding init256_def by (simp only: foldl_append sha256_abc_rounds1 sha256_abc_rounds2 sha256_abc_rounds3 sha256_abc_rounds4 sha256_abc_rounds5 sha256_abc_rounds6 sha256_abc_rounds7 sha256_abc_rounds8)
qed

lemma sha256_abc_block:
  "blocks256 init256 (pad256 (bytes_of ''abc'')) =
     [0xba7816bf, 0x8f01cfea, 0x414140de, 0x5dae2223, 0xb00361a3, 0x96177a9c,
     0xb410ff61, 0xf20015ad]"
proof -
  have len: "length (pad256 (bytes_of ''abc'')) = 64"
    by (simp add: pad256_def PutUint64_def bytes_of_def)
  then have "blocks256 init256 (pad256 (bytes_of ''abc'')) = block256 init256 (pad256 (bytes_of ''abc''))"
    by (simp add: blocks256.simps [of init256] blocks256.simps [of _ "[]"])
  also have "\<dots> = map2 (+) init256
     [0x506e3058, 0xd39a2165, 0x04d24d6c, 0xb85e2ce9, 0x5ef50f24, 0xfb121210,
     0x948d25b6, 0x961f4894]"
    using len by (simp add: block256_def sha256_abc_chunk sha256_abc_schedule sha256_abc_rounds)
  also have "\<dots> =
     [0xba7816bf, 0x8f01cfea, 0x414140de, 0x5dae2223, 0xb00361a3, 0x96177a9c,
     0xb410ff61, 0xf20015ad]"
    by (simp add: init256_def)
  finally show ?thesis .
qed

lemma sha256_abc_digest:
  "EncodeToString (sha256_Sum (bytes_of ''abc'')) =
     ''ba7816bf8f01cfea414140de5dae2223b00361a396177a9cb410ff61f20015ad''"
  by (simp add: sha256_Sum_def sha256_abc_block PutUint32_def EncodeToString_def hextable_def)

lemma newLink_abc:
  "Hash (newLink ''abc'') = ''ba7816bf8f01cfea414140de5dae2223b00361a396177a9cb410ff61f20015ad''"
  by (simp add: newLink_def sha256_abc_digest)

lemma newLink_empty:
  "Hash (newLink []) = ''e3b0c44298fc1c149afbf4c8996fb92427ae41e4649b934ca495991b7852b855''"
  by (simp add: newLink_def sha256_empty_digest)

text \<open>
  C4. The identifier of a destination is a function of the destination alone: it is the
  hexadecimal encoding of the SHA-256 digest of the destination's bytes, it has 64
  characters, and each of them is one of \<^verbatim>\<open>0123456789abcdef\<close>.
\<close>

theorem newLink_Hash_sha256_hex:
  "Hash (newLink d) = EncodeToString (sha256_Sum (bytes_of d))
   \<and> length (sha256_Sum (bytes_of d)) * 8 = 256
   \<and> length (Hash (newLink d)) = 64
   \<and> set (Hash (newLink d)) \<subseteq> set ''0123456789abcdef''
   \<and> Destination (newLink d) = d"
proof -
  have "set (Hash (newLink d)) \<subseteq> set hextable"
    by (simp add: newLink_def set_EncodeToString)
  then show ?thesis
    by (simp add: newLink_def length_EncodeToString length_sha256_Sum hextable_def)
qed

section \<open>The record store and the hit log\<close>

lemma Logger_Println_eq: "Logger_Println prefix t v = formatHeader prefix t @ v @ [LF]"
  by (simp add: Logger_Println_def Let_def)

lemma save_new:
  assumes "fs (unit_name (Hash l)) = None"
  shows "save l fs = (None, fs(unit_name (Hash l) \<mapsto>
           \<lparr>contents = Destination l @ [LF], readable = True, writable = True\<rparr>))"
  using assms by (simp add: save_def os_WriteFile_def Let_def)

lemma save_existing:
  assumes "fs (unit_name (Hash l)) = Some f" and "writable f"
  shows "save l fs = (None, fs(unit_name (Hash l) \<mapsto> f\<lparr>contents := Destination l @ [LF]\<rparr>))"
  using assms by (simp add: save_def os_WriteFile_def Let_def)

lemma registerDestination_new:
  assumes "fs (unit_name (Hash (newLink d))) = None"
  shows "registerDestination d fs =
           (Inr (Hash (newLink d)),
            fs(unit_name (Hash (newLink d)) \<mapsto>
               \<lparr>contents = d @ [LF], readable = True, writable = True\<rparr>))"
proof -
  have "Destination (newLink d) = d"
    by (simp add: newLink_def Let_def)
  with assms save_new [of fs "newLink d"] show ?thesis
    by (simp add: registerDestination_def Let_def)
qed

lemma registerDestination_existing:
  assumes "fs (unit_name (Hash (newLink d))) = Some f" and "writable f"
  shows "registerDestination d fs =
           (Inr (Hash (newLink d)),
            fs(unit_name (Hash (newLink d)) \<mapsto> f\<lparr>contents := d @ [LF]\<rparr>))"
proof -
  have "Destination (newLink d) = d"
    by (simp add: newLink_def Let_def)
  with assms save_existing [of fs "newLink d" f] show ?thesis
    by (simp add: registerDestination_def Let_def)
qed

lemma registerDestination_accessible:
  assumes "accessible fs (unit_name (Hash (newLink d)))"
  shows "\<exists>f. registerDestination d fs =
               (Inr (Hash (newLink d)), fs(unit_name (Hash (newLink d)) \<mapsto> f))
             \<and> contents f = d @ [LF] \<and> readable f \<and> writable f"
proof (cases "fs (unit_name (Hash (newLink d)))")
  case None
  have "registerDestination d fs =
          (Inr (Hash (newLink d)),
           fs(unit_name (Hash (newLink d)) \<mapsto>
              \<lparr>contents = d @ [LF], readable = True, writable = True\<rparr>))"
    using None by (rule registerDestination_new)
  then show ?thesis
    by (intro exI [of _ "\<lparr>contents = d @ [LF], readable = True, writable = True\<rparr>"]) simp
next
  case (Some f)
  with assms have rw: "readable f" "writable f"
    by (simp_all add: accessible_def)
  have "registerDestination d fs =
          (Inr (Hash (newLink d)),
           fs(unit_name (Hash (newLink d)) \<mapsto> f\<lparr>contents := d @ [LF]\<rparr>))"
    using Some rw(2) by (rule registerDestination_existing)
  then show ?thesis
    using rw by (intro exI [of _ "f\<lparr>contents := d @ [LF]\<rparr>"]) simp
qed

lemma loadLink_missing:
  assumes "fs (unit_name m) = None"
  shows "loadLink m fs = Inl ENOENT"
  using assms by (simp add: loadLink_def os_Open_def Let_def)

lemma loadLink_present:
  assumes "fs (unit_name m) = Some f" and "readable f"
  shows "loadLink m fs = Inr \<lparr>Destination = Scanner_Text (Scanner_Scan (contents f)), Hash = m\<rparr>"
  using assms by (simp add: loadLink_def os_Open_def Let_def)

lemma loadHits_present:
  assumes "fs (unit_name m) = Some f" and "readable f"
  shows "loadHits m fs = Inr (contents f)"
  using assms by (simp add: loadHits_def os_ReadFile_def os_Open_def Let_def)

lemma getAnalytics_present:
  assumes "fs (unit_name m) = Some f" and "readable f"
  shows "getAnalytics m fs =
           Inr \<lparr>GoTo = \<lparr>Destination = Scanner_Text (Scanner_Scan (contents f)), Hash = m\<rparr>,
                Analytics = contents f\<rparr>"
  using assms
  by (simp add: getAnalytics_def loadLink_present [of fs m f] loadHits_present [of fs m f])

lemma gotHit_missing:
  assumes "fs (unit_name h) = None"
  shows "gotHit h ua now fs = (Some ENOENT, fs)"
  using assms by (simp add: gotHit_def os_OpenFile_append_def Let_def)

lemma gotHit_read_only:
  assumes "fs (unit_name h) = Some f" and "\<not> writable f"
  shows "gotHit h ua now fs = (Some EACCES, fs)"
  using assms by (simp add: gotHit_def os_OpenFile_append_def Let_def)

lemma gotHit_present:
  assumes "fs (unit_name h) = Some f" and "writable f"
  shows "gotHit h ua now fs =
           (None, fs(unit_name h \<mapsto> f\<lparr>contents := contents f @ hit_record now ua @ [LF]\<rparr>))"
  using assms
  by (simp add: gotHit_def os_OpenFile_append_def file_Write_append_def Let_def
      Logger_Println_eq hit_record_def)

lemma visit_present:
  assumes "fs (unit_name m) = Some f" and "readable f" and "writable f"
  shows "visit m ua now fs =
           (Inr (Scanner_Text (Scanner_Scan (contents f))),
            fs(unit_name m \<mapsto> f\<lparr>contents := contents f @ hit_record now ua @ [LF]\<rparr>))"
  using assms
  by (simp add: visit_def loadLink_present [of fs m f] gotHit_present [of fs m f])

text \<open>
  C6. On an identifier with no storage unit, \<open>visit\<close> and \<open>getAnalytics\<close> both fail
  with \<^verbatim>\<open>ENOENT\<close>, the error of a file that does not exist; no destination and no history
  is returned, and the directory is as it was.
\<close>

theorem unregistered_NotFound:
  assumes "fs (unit_name m) = None"
  shows "visit m ua now fs = (Inl (Error ENOENT), fs)
         \<and> getAnalytics m fs = Inl (Error ENOENT)"
  using assms by (simp add: visit_def getAnalytics_def loadLink_missing [of fs m])

theorem unregistered_NotFound_witness:
  "(\<lambda>name. None :: File option) (unit_name ''0a1b'') = None
   \<and> visit ''0a1b'' ''curl/8.0''
        \<lparr>Year = 2024, Month = 3, Day = 2, Hour = 4, Minute = 5, Second = 6\<rparr> (\<lambda>name. None)
      = (Inl (Error ENOENT), \<lambda>name. None)
   \<and> getAnalytics ''0a1b'' (\<lambda>name. None) = Inl (Error ENOENT)"
  using unregistered_NotFound [of "\<lambda>name. None" "''0a1b''" "''curl/8.0''"
      "\<lparr>Year = 2024, Month = 3, Day = 2, Hour = 4, Minute = 5, Second = 6\<rparr>"]
  by simp

text \<open>
  C7. When the storage unit of the identifier does not exist, or exists and cannot be
  opened for writing, \<open>gotHit\<close> returns an error (\<^verbatim>\<open>ENOENT\<close> and \<^verbatim>\<open>EACCES\<close>) and the
  directory is unchanged: no unit is created.
\<close>

theorem gotHit_error_leaves_state:
  assumes "fs (unit_name h) = None \<or> (\<exists>f. fs (unit_name h) = Some f \<and> \<not> writable f)"
  shows "gotHit h ua now fs = (Some (if fs (unit_name h) = None then ENOENT else EACCES), fs)"
  using assms by (auto simp: gotHit_missing gotHit_read_only)

theorem gotHit_error_leaves_state_witness:
  "gotHit ''0a1b'' ''curl/8.0''
     \<lparr>Year = 2024, Month = 3, Day = 2, Hour = 4, Minute = 5, Second = 6\<rparr> (\<lambda>name. None)
   = (Some ENOENT, \<lambda>name. None)
   \<and> gotHit ''0a1b'' ''curl/8.0''
     \<lparr>Year = 2024, Month = 3, Day = 2, Hour = 4, Minute = 5, Second = 6\<rparr>
     ((\<lambda>name. None)(unit_name ''0a1b'' \<mapsto>
         \<lparr>contents = ''x'' @ [LF], readable = True, writable = False\<rparr>))
   = (Some EACCES,
      (\<lambda>name. None)(unit_name ''0a1b'' \<mapsto>
         \<lparr>contents = ''x'' @ [LF], readable = True, writable = False\<rparr>))"
  using gotHit_error_leaves_state [of "\<lambda>name. None" "''0a1b''" "''curl/8.0''"
      "\<lparr>Year = 2024, Month = 3, Day = 2, Hour = 4, Minute = 5, Second = 6\<rparr>"]
    gotHit_error_leaves_state [of "(\<lambda>name. None)(unit_name ''0a1b'' \<mapsto>
         \<lparr>contents = ''x'' @ [LF], readable = True, writable = False\<rparr>)" "''0a1b''" "''curl/8.0''"
      "\<lparr>Year = 2024, Month = 3, Day = 2, Hour = 4, Minute = 5, Second = 6\<rparr>"]
  by simp

section \<open>The first line of a storage unit\<close>

lemma dropCR_unchanged:
  assumes "p = [] \<or> last p \<noteq> CR"
  shows "dropCR p = p"
  using assms by (auto simp: dropCR_def)

lemma takeWhile_before_LF:
  assumes "LF \<notin> set p"
  shows "takeWhile (\<lambda>c. c \<noteq> LF) (p @ LF # r) = p"
proof -
  have "takeWhile (\<lambda>c. c \<noteq> LF) (p @ LF # r) = takeWhile (\<lambda>c. c \<noteq> LF) p"
    by (rule takeWhile_tail) simp
  also have "\<dots> = p"
    using assms by auto
  finally show ?thesis .
qed

lemma Scanner_Scan_first_line:
  assumes "LF \<notin> set p" and "length p < MaxScanTokenSize"
  shows "Scanner_Scan (p @ LF # q) = Some (dropCR p)"
proof -
  have w: "take MaxScanTokenSize (p @ LF # q)
             = p @ LF # take (MaxScanTokenSize - Suc (length p)) q"
    using assms(2) by (simp add: take_Cons')
  show ?thesis
    unfolding Scanner_Scan_def w
    by (simp add: ScanLines_def Let_def takeWhile_before_LF [OF assms(1)])
qed

lemma Scanner_Text_first_line:
  assumes "LF \<notin> set p" and "length p < MaxScanTokenSize" and "p = [] \<or> last p \<noteq> CR"
  shows "Scanner_Text (Scanner_Scan (p @ LF # q)) = p"
  using assms by (simp add: Scanner_Scan_first_line Scanner_Text_def dropCR_unchanged)

lemma Scanner_Scan_too_long:
  assumes "LF \<notin> set p" and "MaxScanTokenSize \<le> length p"
  shows "Scanner_Scan (p @ q) = None"
proof -
  have "set (take MaxScanTokenSize (p @ q)) \<subseteq> set p"
    using assms(2) by (simp add: set_take_subset)
  with assms(1) have "LF \<notin> set (take MaxScanTokenSize (p @ q))"
    by blast
  then have "ScanLines (take MaxScanTokenSize (p @ q)) False = (0, None)"
    by (simp add: ScanLines_def)
  with assms(2) show ?thesis
    by (simp add: Scanner_Scan_def)
qed

lemma lines_from_line:
  assumes "LF \<notin> set l"
  shows "lines_from cur (l @ LF # rest) = (cur @ l) # lines_from [] rest"
  using assms by (induction l arbitrary: cur) auto

lemma lines_from_records:
  assumes "\<forall>r \<in> set rs. LF \<notin> set r"
  shows "lines_from [] (concat (map (\<lambda>r. r @ [LF]) rs)) = rs"
  using assms
proof (induction rs)
  case Nil
  then show ?case by simp
next
  case (Cons r rs)
  then have "LF \<notin> set r" by simp
  from lines_from_line [OF this, of "[]" "concat (map (\<lambda>r. r @ [LF]) rs)"] Cons
  show ?case by simp
qed

lemma lines_of_unit:
  assumes "LF \<notin> set d" and "\<forall>r \<in> set rs. LF \<notin> set r"
  shows "lines_of (d @ LF # concat (map (\<lambda>r. r @ [LF]) rs)) = d # rs"
  using lines_from_line [OF assms(1), of "[]"] lines_from_records [OF assms(2)]
  by (simp add: lines_of_def)

lemma hit_records_unit:
  assumes "LF \<notin> set d" and "\<forall>r \<in> set rs. LF \<notin> set r"
  shows "hit_records (d @ LF # concat (map (\<lambda>r. r @ [LF]) rs)) = rs"
  by (simp add: hit_records_def lines_of_unit [OF assms])

section \<open>The text of a hit record\<close>

lemma digit_char_no_LF:
  assumes "n < 10"
  shows "digit_char n \<noteq> LF"
proof
  assume "digit_char n = LF"
  then have "of_char (char_of (48 + n)) = (of_char LF :: nat)"
    by (simp add: digit_char_def)
  then have "(48 + n) mod 256 = 10"
    by (simp add: of_char_of)
  with assms show False by simp
qed

lemma itoa_no_LF: "LF \<notin> set (itoa i wid)"
proof (induction i wid rule: itoa.induct)
  case (1 i wid)
  show ?case
  proof (cases "10 \<le> i \<or> 1 < wid")
    case True
    have "i - i div 10 * 10 < 10" by arith
    then have "digit_char (i - i div 10 * 10) \<noteq> LF"
      by (rule digit_char_no_LF)
    moreover have "LF \<notin> set (itoa (i div 10) (wid - 1))"
      using True by (rule 1)
    ultimately show ?thesis
      using True by (subst itoa.simps) auto
  next
    case False
    then have "i < 10" by simp
    then have "digit_char i \<noteq> LF"
      by (rule digit_char_no_LF)
    with False show ?thesis
      by (subst itoa.simps) auto
  qed
qed

lemma formatHeader_no_LF:
  assumes "LF \<notin> set prefix"
  shows "LF \<notin> set (formatHeader prefix t)"
  using assms by (simp add: formatHeader_def itoa_no_LF)

lemma hit_record_no_LF:
  assumes "LF \<notin> set ua"
  shows "LF \<notin> set (hit_record now ua)"
  using assms by (simp add: hit_record_def formatHeader_no_LF)

lemma hit_record_example:
  "hit_record \<lparr>Year = 2024, Month = 3, Day = 2, Hour = 4, Minute = 5, Second = 6\<rparr> ua
     = ''hit: 2024/03/02 04:05:06 '' @ ua"
  by (simp add: hit_record_def formatHeader_def itoa.simps digit_char_def char_of_eq_iff)

section \<open>Registering a destination and reading it back\<close>

text \<open>
  C9. A destination with a line feed in it is stored whole, and \<open>loadLink\<close> returns only
  the part before the first line feed (when that part fits the scanner's buffer and
  does not end in a carriage return): for \<^verbatim>\<open>"a\nb"\<close> it returns \<^verbatim>\<open>"a"\<close>.
\<close>

theorem load_after_create_first_line_only:
  assumes "accessible fs (unit_name (Hash (newLink (p @ LF # q))))"
    and "LF \<notin> set p" and "length p < MaxScanTokenSize" and "p = [] \<or> last p \<noteq> CR"
  shows "\<exists>fs'. registerDestination (p @ LF # q) fs = (Inr (Hash (newLink (p @ LF # q))), fs')
           \<and> loadLink (Hash (newLink (p @ LF # q))) fs'
               = Inr \<lparr>Destination = p, Hash = Hash (newLink (p @ LF # q))\<rparr>
           \<and> p \<noteq> p @ LF # q"
proof -
  let ?d = "p @ LF # q"
  let ?name = "unit_name (Hash (newLink ?d))"
  from registerDestination_accessible [OF assms(1)]
  obtain f where reg: "registerDestination ?d fs = (Inr (Hash (newLink ?d)), fs(?name \<mapsto> f))"
    and f: "contents f = ?d @ [LF]" "readable f"
    by blast
  have "Scanner_Text (Scanner_Scan (p @ LF # (q @ [LF]))) = p"
    using assms(2-4) by (rule Scanner_Text_first_line)
  then have "Scanner_Text (Scanner_Scan (contents f)) = p"
    using f(1) by simp
  moreover have "(fs(?name \<mapsto> f)) ?name = Some f"
    by simp
  ultimately have "loadLink (Hash (newLink ?d)) (fs(?name \<mapsto> f))
      = Inr \<lparr>Destination = p, Hash = Hash (newLink ?d)\<rparr>"
    using f(2) loadLink_present [of "fs(?name \<mapsto> f)" "Hash (newLink ?d)" f] by simp
  with reg show ?thesis by auto
qed

theorem load_after_create_first_line_only_witness:
  "accessible (\<lambda>name. None) (unit_name (Hash (newLink (''a'' @ LF # ''b''))))
   \<and> loadLink (Hash (newLink (''a'' @ LF # ''b'')))
        (snd (registerDestination (''a'' @ LF # ''b'') (\<lambda>name. None)))
      = Inr \<lparr>Destination = ''a'', Hash = Hash (newLink (''a'' @ LF # ''b''))\<rparr>
   \<and> ''a'' \<noteq> ''a'' @ LF # ''b''"
  using load_after_create_first_line_only [of "\<lambda>name. None" "''a''" "''b''"]
  by (auto simp: accessible_def MaxScanTokenSize_def)

text \<open>
  C3, as the code has it. For a destination with no line feed, that does not end in a
  carriage return and is shorter than the scanner's buffer, registering it and asking
  for the analytics of the returned identifier gives that destination, and the stored
  bytes are the destination line alone: there is no hit record.
\<close>

theorem register_then_getAnalytics:
  assumes "accessible fs (unit_name (Hash (newLink d)))"
    and "LF \<notin> set d" and "length d < MaxScanTokenSize" and "d = [] \<or> last d \<noteq> CR"
  shows "\<exists>fs'. registerDestination d fs = (Inr (Hash (newLink d)), fs')
           \<and> getAnalytics (Hash (newLink d)) fs'
               = Inr \<lparr>GoTo = \<lparr>Destination = d, Hash = Hash (newLink d)\<rparr>,
                      Analytics = d @ [LF]\<rparr>
           \<and> hit_records (d @ [LF]) = []"
proof -
  let ?name = "unit_name (Hash (newLink d))"
  from registerDestination_accessible [OF assms(1)]
  obtain f where reg: "registerDestination d fs = (Inr (Hash (newLink d)), fs(?name \<mapsto> f))"
    and f: "contents f = d @ [LF]" "readable f"
    by blast
  have "Scanner_Text (Scanner_Scan (d @ LF # [])) = d"
    using assms(2-4) by (rule Scanner_Text_first_line)
  then have "Scanner_Text (Scanner_Scan (contents f)) = d"
    using f(1) by simp
  moreover have "(fs(?name \<mapsto> f)) ?name = Some f"
    by simp
  ultimately have "getAnalytics (Hash (newLink d)) (fs(?name \<mapsto> f))
      = Inr \<lparr>GoTo = \<lparr>Destination = d, Hash = Hash (newLink d)\<rparr>, Analytics = d @ [LF]\<rparr>"
    using f getAnalytics_present [of "fs(?name \<mapsto> f)" "Hash (newLink d)" f] by simp
  moreover have "hit_records (d @ [LF]) = []"
    using hit_records_unit [OF assms(2), of "[]"] by simp
  ultimately show ?thesis
    using reg by auto
qed

theorem register_then_getAnalytics_witness:
  "accessible (\<lambda>name. None) (unit_name (Hash (newLink ''https://example.com/a'')))
   \<and> getAnalytics (Hash (newLink ''https://example.com/a''))
        (snd (registerDestination ''https://example.com/a'' (\<lambda>name. None)))
      = Inr \<lparr>GoTo = \<lparr>Destination = ''https://example.com/a'',
                       Hash = Hash (newLink ''https://example.com/a'')\<rparr>,
             Analytics = ''https://example.com/a'' @ [LF]\<rparr>
   \<and> hit_records (''https://example.com/a'' @ [LF]) = []"
  using register_then_getAnalytics [of "\<lambda>name. None" "''https://example.com/a''"]
  by (auto simp: accessible_def MaxScanTokenSize_def)

text \<open>
  C3 as the specification states it, for every destination, fails: after registering
  \<^verbatim>\<open>"a\nb"\<close> in the empty directory, the analytics name the destination \<^verbatim>\<open>"a"\<close>, and the
  stored bytes have one line after the first.
\<close>

theorem register_then_getAnalytics_counterexample:
  "getAnalytics (Hash (newLink (''a'' @ LF # ''b'')))
     (snd (registerDestination (''a'' @ LF # ''b'') (\<lambda>name. None)))
   = Inr \<lparr>GoTo = \<lparr>Destination = ''a'', Hash = Hash (newLink (''a'' @ LF # ''b''))\<rparr>,
          Analytics = ''a'' @ LF # ''b'' @ [LF]\<rparr>
   \<and> ''a'' \<noteq> ''a'' @ LF # ''b''
   \<and> hit_records (''a'' @ LF # ''b'' @ [LF]) = [''b'']"
proof -
  let ?d = "''a'' @ LF # ''b''"
  let ?name = "unit_name (Hash (newLink ?d))"
  let ?f = "\<lparr>contents = ?d @ [LF], readable = True, writable = True\<rparr>"
  have reg: "registerDestination ?d (\<lambda>name. None)
               = (Inr (Hash (newLink ?d)), (\<lambda>name. None)(?name \<mapsto> ?f))"
    by (rule registerDestination_new) simp
  have "Scanner_Text (Scanner_Scan (''a'' @ LF # (''b'' @ [LF]))) = ''a''"
    by (rule Scanner_Text_first_line) (simp_all add: MaxScanTokenSize_def)
  then have "getAnalytics (Hash (newLink ?d)) ((\<lambda>name. None)(?name \<mapsto> ?f))
      = Inr \<lparr>GoTo = \<lparr>Destination = ''a'', Hash = Hash (newLink ?d)\<rparr>,
             Analytics = ?d @ [LF]\<rparr>"
    using getAnalytics_present [of "(\<lambda>name. None)(?name \<mapsto> ?f)" "Hash (newLink ?d)" ?f]
    by simp
  moreover have "hit_records (''a'' @ LF # ''b'' @ [LF]) = [''b'']"
    by (simp add: hit_records_def lines_of_def)
  ultimately show ?thesis
    using reg by simp
qed

text \<open>
  The other two conditions are needed as well: a carriage return at the end of the
  destination is cut off by the scanner, and a destination of 65536 bytes or more makes
  the scanner give up, so that the destination read back is empty.
\<close>

lemma register_then_loadLink_trailing_CR:
  "loadLink (Hash (newLink (''a'' @ [CR])))
     (snd (registerDestination (''a'' @ [CR]) (\<lambda>name. None)))
   = Inr \<lparr>Destination = ''a'', Hash = Hash (newLink (''a'' @ [CR]))\<rparr>"
proof -
  let ?d = "''a'' @ [CR]"
  let ?name = "unit_name (Hash (newLink ?d))"
  let ?f = "\<lparr>contents = ?d @ [LF], readable = True, writable = True\<rparr>"
  have reg: "registerDestination ?d (\<lambda>name. None)
               = (Inr (Hash (newLink ?d)), (\<lambda>name. None)(?name \<mapsto> ?f))"
    by (rule registerDestination_new) simp
  have "Scanner_Scan (?d @ LF # []) = Some (dropCR ?d)"
    by (rule Scanner_Scan_first_line) (simp_all add: MaxScanTokenSize_def)
  then have "Scanner_Text (Scanner_Scan (?d @ [LF])) = ''a''"
    by (simp add: Scanner_Text_def dropCR_def)
  then show ?thesis
    using reg loadLink_present [of "(\<lambda>name. None)(?name \<mapsto> ?f)" "Hash (newLink ?d)" ?f]
    by simp
qed

lemma register_then_loadLink_long_line:
  assumes "LF \<notin> set d" and "MaxScanTokenSize \<le> length d"
  shows "loadLink (Hash (newLink d)) (snd (registerDestination d (\<lambda>name. None)))
           = Inr \<lparr>Destination = [], Hash = Hash (newLink d)\<rparr>"
proof -
  let ?name = "unit_name (Hash (newLink d))"
  let ?f = "\<lparr>contents = d @ [LF], readable = True, writable = True\<rparr>"
  have reg: "registerDestination d (\<lambda>name. None)
               = (Inr (Hash (newLink d)), (\<lambda>name. None)(?name \<mapsto> ?f))"
    by (rule registerDestination_new) simp
  have "Scanner_Text (Scanner_Scan (d @ [LF])) = []"
    using Scanner_Scan_too_long [OF assms, of "[LF]"] by (simp add: Scanner_Text_def)
  then show ?thesis
    using reg loadLink_present [of "(\<lambda>name. None)(?name \<mapsto> ?f)" "Hash (newLink d)" ?f]
    by simp
qed

section \<open>Registering a destination again\<close>

text \<open>
  C1, as the code has it. \<open>save\<close> writes the file with \<^verbatim>\<open>os.WriteFile\<close>, which
  truncates an existing file. Registering a destination whose unit exists (and is
  writable) returns the same identifier and leaves the unit holding the destination line
  and nothing else: whatever hit history it held is gone. Registering once more changes
  nothing.
\<close>

theorem register_again_rewrites_unit:
  assumes "fs (unit_name (Hash (newLink d))) = Some f" and "writable f"
  shows "registerDestination d fs
           = (Inr (Hash (newLink d)),
              fs(unit_name (Hash (newLink d)) \<mapsto> f\<lparr>contents := d @ [LF]\<rparr>))
         \<and> registerDestination d (fs(unit_name (Hash (newLink d)) \<mapsto> f\<lparr>contents := d @ [LF]\<rparr>))
           = (Inr (Hash (newLink d)),
              fs(unit_name (Hash (newLink d)) \<mapsto> f\<lparr>contents := d @ [LF]\<rparr>))"
proof -
  let ?name = "unit_name (Hash (newLink d))"
  let ?f' = "f\<lparr>contents := d @ [LF]\<rparr>"
  have first: "registerDestination d fs = (Inr (Hash (newLink d)), fs(?name \<mapsto> ?f'))"
    using assms by (rule registerDestination_existing)
  have "(fs(?name \<mapsto> ?f')) ?name = Some ?f'" and "writable ?f'"
    using assms(2) by simp_all
  then have "registerDestination d (fs(?name \<mapsto> ?f'))
      = (Inr (Hash (newLink d)), (fs(?name \<mapsto> ?f'))(?name \<mapsto> ?f'\<lparr>contents := d @ [LF]\<rparr>))"
    by (rule registerDestination_existing)
  with first show ?thesis by simp
qed

theorem register_again_rewrites_unit_witness:
  "registerDestination ''a''
     ((\<lambda>name. None)(unit_name (Hash (newLink ''a'')) \<mapsto>
        \<lparr>contents = ''a'' @ LF # ''hit: 2024/03/02 04:05:06 curl/8.0'' @ [LF],
         readable = True, writable = True\<rparr>))
   = (Inr (Hash (newLink ''a'')),
      (\<lambda>name. None)(unit_name (Hash (newLink ''a'')) \<mapsto>
        \<lparr>contents = ''a'' @ [LF], readable = True, writable = True\<rparr>))"
  using register_again_rewrites_unit [of
      "(\<lambda>name. None)(unit_name (Hash (newLink ''a'')) \<mapsto>
        \<lparr>contents = ''a'' @ LF # ''hit: 2024/03/02 04:05:06 curl/8.0'' @ [LF],
         readable = True, writable = True\<rparr>)"
      "''a''"
      "\<lparr>contents = ''a'' @ LF # ''hit: 2024/03/02 04:05:06 curl/8.0'' @ [LF],
         readable = True, writable = True\<rparr>"]
  by simp

text \<open>
  C1 as the specification states it fails: register \<^verbatim>\<open>"a"\<close> in the empty directory,
  visit it once, register \<^verbatim>\<open>"a"\<close> again. The hit that was stored after the visit is
  not there after the second registration.
\<close>

theorem register_again_counterexample:
  "loadHits (Hash (newLink ''a''))
     (snd (visit (Hash (newLink ''a'')) ''curl/8.0''
        \<lparr>Year = 2024, Month = 3, Day = 2, Hour = 4, Minute = 5, Second = 6\<rparr>
        (snd (registerDestination ''a'' (\<lambda>name. None)))))
   = Inr (''a'' @ LF # ''hit: 2024/03/02 04:05:06 curl/8.0'' @ [LF])
   \<and> loadHits (Hash (newLink ''a''))
     (snd (registerDestination ''a''
        (snd (visit (Hash (newLink ''a'')) ''curl/8.0''
           \<lparr>Year = 2024, Month = 3, Day = 2, Hour = 4, Minute = 5, Second = 6\<rparr>
           (snd (registerDestination ''a'' (\<lambda>name. None)))))))
   = Inr (''a'' @ [LF])"
proof -
  let ?h = "Hash (newLink ''a'')"
  let ?name = "unit_name ?h"
  let ?now = "\<lparr>Year = 2024, Month = 3, Day = 2, Hour = 4, Minute = 5, Second = 6\<rparr>"
  let ?f1 = "\<lparr>contents = ''a'' @ [LF], readable = True, writable = True\<rparr>"
  let ?f2 = "\<lparr>contents = ''a'' @ LF # ''hit: 2024/03/02 04:05:06 curl/8.0'' @ [LF],
              readable = True, writable = True\<rparr>"
  let ?fs1 = "(\<lambda>name. None)(?name \<mapsto> ?f1)"
  let ?fs2 = "(\<lambda>name. None)(?name \<mapsto> ?f2)"
  have s1: "snd (registerDestination ''a'' (\<lambda>name. None)) = ?fs1"
    using registerDestination_new [of "\<lambda>name. None" "''a''"] by simp
  have s2: "snd (visit ?h ''curl/8.0'' ?now ?fs1) = ?fs2"
    using visit_present [of ?fs1 ?h ?f1 "''curl/8.0''" ?now]
    by (simp add: hit_record_example)
  have s3: "snd (registerDestination ''a'' ?fs2) = ?fs1"
    using registerDestination_existing [of ?fs2 "''a''" ?f2] by simp
  have "loadHits ?h ?fs2 = Inr (contents ?f2)"
    by (rule loadHits_present) simp_all
  moreover have "loadHits ?h ?fs1 = Inr (contents ?f1)"
    by (rule loadHits_present) simp_all
  ultimately show ?thesis
    by (simp only: s1 s2 s3) simp
qed

section \<open>The empty destination\<close>

text \<open>
  C10. Nothing checks the destination: the empty one is registered as any other. Its
  identifier is the hexadecimal SHA-256 digest of no bytes, and when the unit can be
  written the registration succeeds and the unit holds one empty line, which
  \<open>loadLink\<close> reads back as the empty destination. The only failure there is, for any
  directory, is the error of a unit that cannot be written.
\<close>

theorem register_empty_destination:
  "Hash (newLink []) = EncodeToString (sha256_Sum [])
   \<and> Hash (newLink []) = ''e3b0c44298fc1c149afbf4c8996fb92427ae41e4649b934ca495991b7852b855''
   \<and> (fst (registerDestination [] fs) = Inr (Hash (newLink []))
        \<or> fst (registerDestination [] fs) = Inl (Error EACCES))
   \<and> (accessible fs (unit_name (Hash (newLink []))) \<longrightarrow>
        (\<exists>f. registerDestination [] fs
                = (Inr (Hash (newLink [])), fs(unit_name (Hash (newLink [])) \<mapsto> f))
              \<and> contents f = [LF]
              \<and> lines_of (contents f) = [[]]
              \<and> loadLink (Hash (newLink [])) (fs(unit_name (Hash (newLink [])) \<mapsto> f))
                  = Inr \<lparr>Destination = [], Hash = Hash (newLink [])\<rparr>))"
proof (intro conjI impI)
  show "Hash (newLink []) = EncodeToString (sha256_Sum [])"
    by (simp add: newLink_def bytes_of_def)
next
  show "Hash (newLink []) = ''e3b0c44298fc1c149afbf4c8996fb92427ae41e4649b934ca495991b7852b855''"
    by (rule newLink_empty)
next
  show "fst (registerDestination [] fs) = Inr (Hash (newLink []))
        \<or> fst (registerDestination [] fs) = Inl (Error EACCES)"
    by (simp add: registerDestination_def save_def os_WriteFile_def Let_def
        split: option.split)
next
  let ?name = "unit_name (Hash (newLink []))"
  assume "accessible fs ?name"
  from registerDestination_accessible [OF this]
  obtain f where reg: "registerDestination [] fs = (Inr (Hash (newLink [])), fs(?name \<mapsto> f))"
    and f: "contents f = [LF]" "readable f"
    by auto
  have "Scanner_Text (Scanner_Scan ([] @ LF # [])) = []"
    by (rule Scanner_Text_first_line) (simp_all add: MaxScanTokenSize_def)
  then have "loadLink (Hash (newLink [])) (fs(?name \<mapsto> f))
      = Inr \<lparr>Destination = [], Hash = Hash (newLink [])\<rparr>"
    using f loadLink_present [of "fs(?name \<mapsto> f)" "Hash (newLink [])" f] by simp
  moreover have "lines_of (contents f) = [[]]"
    using f(1) by (simp add: lines_of_def)
  ultimately show "\<exists>f. registerDestination [] fs
                = (Inr (Hash (newLink [])), fs(?name \<mapsto> f))
              \<and> contents f = [LF]
              \<and> lines_of (contents f) = [[]]
              \<and> loadLink (Hash (newLink [])) (fs(?name \<mapsto> f))
                  = Inr \<lparr>Destination = [], Hash = Hash (newLink [])\<rparr>"
    using reg f(1) by blast
qed

theorem register_empty_destination_witness:
  "accessible (\<lambda>name. None) (unit_name (Hash (newLink [])))
   \<and> registerDestination [] (\<lambda>name. None)
      = (Inr ''e3b0c44298fc1c149afbf4c8996fb92427ae41e4649b934ca495991b7852b855'',
         (\<lambda>name. None)
           (''e3b0c44298fc1c149afbf4c8996fb92427ae41e4649b934ca495991b7852b855.linkanalytics'' \<mapsto>
            \<lparr>contents = [LF], readable = True, writable = True\<rparr>))
   \<and> loadLink (Hash (newLink [])) (snd (registerDestination [] (\<lambda>name. None)))
      = Inr \<lparr>Destination = [], Hash = Hash (newLink [])\<rparr>"
proof -
  have acc: "accessible (\<lambda>name. None) (unit_name (Hash (newLink [])))"
    by (simp add: accessible_def)
  have new: "registerDestination [] (\<lambda>name. None)
      = (Inr (Hash (newLink [])),
         (\<lambda>name. None)(unit_name (Hash (newLink [])) \<mapsto>
            \<lparr>contents = [] @ [LF], readable = True, writable = True\<rparr>))"
    by (rule registerDestination_new) simp
  from register_empty_destination [of "\<lambda>name. None"] acc
  obtain f where h: "Hash (newLink [])
      = ''e3b0c44298fc1c149afbf4c8996fb92427ae41e4649b934ca495991b7852b855''"
    and reg: "registerDestination [] (\<lambda>name. None)
                = (Inr (Hash (newLink [])), (\<lambda>name. None)(unit_name (Hash (newLink [])) \<mapsto> f))"
    and load: "loadLink (Hash (newLink [])) ((\<lambda>name. None)(unit_name (Hash (newLink [])) \<mapsto> f))
                = Inr \<lparr>Destination = [], Hash = Hash (newLink [])\<rparr>"
    by blast
  from reg load have "loadLink (Hash (newLink [])) (snd (registerDestination [] (\<lambda>name. None)))
      = Inr \<lparr>Destination = [], Hash = Hash (newLink [])\<rparr>"
    by simp
  with acc new h show ?thesis by simp
qed

section \<open>Appending a hit\<close>

lemma gotHit_success:
  assumes "gotHit h ua now fs = (None, fs')"
  shows "\<exists>f. fs (unit_name h) = Some f \<and> writable f
           \<and> fs' = fs(unit_name h \<mapsto> f\<lparr>contents := contents f @ hit_record now ua @ [LF]\<rparr>)"
proof (cases "fs (unit_name h)")
  case None
  with assms show ?thesis
    by (simp add: gotHit_missing [of fs h])
next
  case (Some f)
  show ?thesis
  proof (cases "writable f")
    case True
    with Some assms show ?thesis
      by (simp add: gotHit_present [of fs h f])
  next
    case False
    with Some assms show ?thesis
      by (simp add: gotHit_read_only [of fs h f])
  qed
qed

text \<open>
  C5, as the code has it. When \<open>gotHit\<close> succeeds, the unit existed, its bytes are all
  still there in the same order, its permissions and every other file are as before,
  and the bytes added at the end are the prefix \<^verbatim>\<open>hit: \<close>, the date and the time, the
  client signature and a line feed. When the signature has no line feed in it, the line
  feed at the end is the only one added: the bytes added are one line.
\<close>

theorem gotHit_appends_record:
  assumes "gotHit h ua now fs = (None, fs')"
  shows "\<exists>f. fs (unit_name h) = Some f
           \<and> fs' = fs(unit_name h \<mapsto> f\<lparr>contents := contents f @ hit_record now ua @ [LF]\<rparr>)
           \<and> hit_record now ua
               = ''hit: '' @ itoa (Year now) 4 @ ''/'' @ itoa (Month now) 2 @ ''/''
                 @ itoa (Day now) 2 @ '' '' @ itoa (Hour now) 2 @ '':''
                 @ itoa (Minute now) 2 @ '':'' @ itoa (Second now) 2 @ '' '' @ ua
           \<and> (LF \<notin> set ua \<longrightarrow>
                LF \<notin> set (hit_record now ua)
                \<and> lines_of (hit_record now ua @ [LF]) = [hit_record now ua])"
proof -
  from gotHit_success [OF assms]
  obtain f where f: "fs (unit_name h) = Some f"
    "fs' = fs(unit_name h \<mapsto> f\<lparr>contents := contents f @ hit_record now ua @ [LF]\<rparr>)"
    by blast
  have shape: "hit_record now ua
               = ''hit: '' @ itoa (Year now) 4 @ ''/'' @ itoa (Month now) 2 @ ''/''
                 @ itoa (Day now) 2 @ '' '' @ itoa (Hour now) 2 @ '':''
                 @ itoa (Minute now) 2 @ '':'' @ itoa (Second now) 2 @ '' '' @ ua"
    by (simp add: hit_record_def formatHeader_def)
  have one: "LF \<notin> set (hit_record now ua) \<and> lines_of (hit_record now ua @ [LF]) = [hit_record now ua]"
    if "LF \<notin> set ua"
  proof -
    have no: "LF \<notin> set (hit_record now ua)"
      using that by (rule hit_record_no_LF)
    from lines_from_line [OF no, of "[]" "[]"] no show ?thesis
      by (simp add: lines_of_def)
  qed
  from f shape one show ?thesis by blast
qed

theorem gotHit_appends_record_witness:
  "gotHit ''0a1b'' ''curl/8.0''
     \<lparr>Year = 2024, Month = 3, Day = 2, Hour = 4, Minute = 5, Second = 6\<rparr>
     ((\<lambda>name. None)(unit_name ''0a1b'' \<mapsto>
         \<lparr>contents = ''x'' @ [LF], readable = True, writable = True\<rparr>))
   = (None,
      (\<lambda>name. None)(unit_name ''0a1b'' \<mapsto>
         \<lparr>contents = ''x'' @ LF # ''hit: 2024/03/02 04:05:06 curl/8.0'' @ [LF],
          readable = True, writable = True\<rparr>))
   \<and> lines_of (''hit: 2024/03/02 04:05:06 curl/8.0'' @ [LF])
      = [''hit: 2024/03/02 04:05:06 curl/8.0'']"
proof -
  let ?now = "\<lparr>Year = 2024, Month = 3, Day = 2, Hour = 4, Minute = 5, Second = 6\<rparr>"
  let ?f = "\<lparr>contents = ''x'' @ [LF], readable = True, writable = True\<rparr>"
  let ?fs = "(\<lambda>name. None)(unit_name ''0a1b'' \<mapsto> ?f)"
  let ?fs' = "?fs(unit_name ''0a1b'' \<mapsto>
                ?f\<lparr>contents := contents ?f @ hit_record ?now ''curl/8.0'' @ [LF]\<rparr>)"
  have run: "gotHit ''0a1b'' ''curl/8.0'' ?now ?fs = (None, ?fs')"
    by (rule gotHit_present) simp_all
  from gotHit_appends_record [OF run]
  have "lines_of (hit_record ?now ''curl/8.0'' @ [LF]) = [hit_record ?now ''curl/8.0'']"
    by auto
  with run show ?thesis
    by (simp add: hit_record_example)
qed

text \<open>
  C5 as the specification states it, for every client signature, fails: with the
  signature \<^verbatim>\<open>"a\nb"\<close> a successful \<open>gotHit\<close> adds two lines, and the second is not a
  record with a time.
\<close>

theorem gotHit_appends_record_counterexample:
  "gotHit ''0a1b'' (''a'' @ LF # ''b'')
     \<lparr>Year = 2024, Month = 3, Day = 2, Hour = 4, Minute = 5, Second = 6\<rparr>
     ((\<lambda>name. None)(unit_name ''0a1b'' \<mapsto>
         \<lparr>contents = ''x'' @ [LF], readable = True, writable = True\<rparr>))
   = (None,
      (\<lambda>name. None)(unit_name ''0a1b'' \<mapsto>
         \<lparr>contents = ''x'' @ LF # ''hit: 2024/03/02 04:05:06 a'' @ LF # ''b'' @ [LF],
          readable = True, writable = True\<rparr>))
   \<and> lines_of (''hit: 2024/03/02 04:05:06 a'' @ LF # ''b'' @ [LF])
      = [''hit: 2024/03/02 04:05:06 a'', ''b'']"
proof -
  let ?now = "\<lparr>Year = 2024, Month = 3, Day = 2, Hour = 4, Minute = 5, Second = 6\<rparr>"
  let ?f = "\<lparr>contents = ''x'' @ [LF], readable = True, writable = True\<rparr>"
  let ?fs = "(\<lambda>name. None)(unit_name ''0a1b'' \<mapsto> ?f)"
  let ?fs' = "?fs(unit_name ''0a1b'' \<mapsto>
                ?f\<lparr>contents := contents ?f @ hit_record ?now (''a'' @ LF # ''b'') @ [LF]\<rparr>)"
  have run: "gotHit ''0a1b'' (''a'' @ LF # ''b'') ?now ?fs = (None, ?fs')"
    by (rule gotHit_present) simp_all
  have "lines_of (''hit: 2024/03/02 04:05:06 a'' @ LF # ''b'' @ [LF])
          = [''hit: 2024/03/02 04:05:06 a'', ''b'']"
    by (simp add: lines_of_def)
  with run show ?thesis
    by (simp add: hit_record_example)
qed

section \<open>Visits and the analytics\<close>

lemma visits_present:
  assumes "fs (unit_name m) = Some f" and "readable f" and "writable f"
  shows "visits m hs fs
           = Some (fs(unit_name m \<mapsto>
               f\<lparr>contents := contents f
                    @ concat (map (\<lambda>(now, ua). hit_record now ua @ [LF]) hs)\<rparr>))"
  using assms
proof (induction hs arbitrary: fs f)
  case Nil
  then have "fs(unit_name m \<mapsto> f) = fs"
    by (simp add: fun_upd_idem)
  then show ?case by simp
next
  case (Cons x hs)
  obtain now ua where x: "x = (now, ua)"
    by (cases x)
  let ?f' = "f\<lparr>contents := contents f @ hit_record now ua @ [LF]\<rparr>"
  let ?fs' = "fs(unit_name m \<mapsto> ?f')"
  have step: "visit m ua now fs = (Inr (Scanner_Text (Scanner_Scan (contents f))), ?fs')"
    using Cons.prems by (rule visit_present)
  have "?fs' (unit_name m) = Some ?f'" and "readable ?f'" and "writable ?f'"
    using Cons.prems by simp_all
  then have "visits m hs ?fs'
      = Some (?fs'(unit_name m \<mapsto>
          ?f'\<lparr>contents := contents ?f'
                @ concat (map (\<lambda>(now, ua). hit_record now ua @ [LF]) hs)\<rparr>))"
    by (rule Cons.IH)
  moreover have "visits m (x # hs) fs = visits m hs ?fs'"
    using step x by simp
  moreover have "?fs'(unit_name m \<mapsto>
          ?f'\<lparr>contents := contents ?f'
                @ concat (map (\<lambda>(now, ua). hit_record now ua @ [LF]) hs)\<rparr>)
      = fs(unit_name m \<mapsto>
          f\<lparr>contents := contents f
                @ concat (map (\<lambda>(now, ua). hit_record now ua @ [LF]) (x # hs))\<rparr>)"
    using x by simp
  ultimately show ?case
    by (simp only:)
qed

lemma hit_records_of_visits:
  assumes "LF \<notin> set d" and "\<forall>(now, ua) \<in> set hs. LF \<notin> set ua"
  shows "hit_records (d @ LF # concat (map (\<lambda>(now, ua). hit_record now ua @ [LF]) hs))
           = map (\<lambda>(now, ua). hit_record now ua) hs"
proof -
  let ?rs = "map (\<lambda>(now, ua). hit_record now ua) hs"
  have "\<forall>r \<in> set ?rs. LF \<notin> set r"
    using assms(2) by (auto simp: hit_record_no_LF)
  from hit_records_unit [OF assms(1) this]
  have "hit_records (d @ LF # concat (map (\<lambda>r. r @ [LF]) ?rs)) = ?rs" .
  moreover have "concat (map (\<lambda>r. r @ [LF]) ?rs)
      = concat (map (\<lambda>(now, ua). hit_record now ua @ [LF]) hs)"
    by (induction hs) auto
  ultimately show ?thesis
    by (simp only:)
qed

text \<open>
  C2, as the code has it. Register a destination that has no line feed in it, then visit
  the identifier \<open>N\<close> times, each client signature free of line feeds. Every visit
  succeeds, and the analytics hold the destination line and then exactly \<open>N\<close> hit
  records in the order of the calls; the \<open>i\<close>-th record is the prefix, the time of the
  \<open>i\<close>-th call and the \<open>i\<close>-th client signature.
\<close>

theorem visits_then_getAnalytics:
  assumes "accessible fs (unit_name (Hash (newLink d)))"
    and "LF \<notin> set d"
    and "\<forall>(now, ua) \<in> set hs. LF \<notin> set ua"
  shows "\<exists>fs1 fs2 l.
           registerDestination d fs = (Inr (Hash (newLink d)), fs1)
           \<and> visits (Hash (newLink d)) hs fs1 = Some fs2
           \<and> getAnalytics (Hash (newLink d)) fs2
               = Inr \<lparr>GoTo = l,
                      Analytics = d @ LF # concat (map (\<lambda>(now, ua). hit_record now ua @ [LF]) hs)\<rparr>
           \<and> hit_records (d @ LF # concat (map (\<lambda>(now, ua). hit_record now ua @ [LF]) hs))
               = map (\<lambda>(now, ua). formatHeader ''hit: '' now @ ua) hs
           \<and> length (hit_records
                 (d @ LF # concat (map (\<lambda>(now, ua). hit_record now ua @ [LF]) hs)))
               = length hs"
proof -
  let ?h = "Hash (newLink d)"
  let ?name = "unit_name ?h"
  let ?bytes = "d @ LF # concat (map (\<lambda>(now, ua). hit_record now ua @ [LF]) hs)"
  from registerDestination_accessible [OF assms(1)]
  obtain f where reg: "registerDestination d fs = (Inr ?h, fs(?name \<mapsto> f))"
    and f: "contents f = d @ [LF]" "readable f" "writable f"
    by blast
  let ?f2 = "f\<lparr>contents := contents f
               @ concat (map (\<lambda>(now, ua). hit_record now ua @ [LF]) hs)\<rparr>"
  let ?fs2 = "(fs(?name \<mapsto> f))(?name \<mapsto> ?f2)"
  have "(fs(?name \<mapsto> f)) ?name = Some f"
    by simp
  then have run: "visits ?h hs (fs(?name \<mapsto> f)) = Some ?fs2"
    using f(2,3) by (rule visits_present)
  have "?fs2 ?name = Some ?f2" and "readable ?f2"
    using f(2) by simp_all
  then have "getAnalytics ?h ?fs2
      = Inr \<lparr>GoTo = \<lparr>Destination = Scanner_Text (Scanner_Scan (contents ?f2)), Hash = ?h\<rparr>,
             Analytics = contents ?f2\<rparr>"
    by (rule getAnalytics_present)
  moreover have "contents ?f2 = ?bytes"
    using f(1) by simp
  ultimately have ana: "getAnalytics ?h ?fs2
      = Inr \<lparr>GoTo = \<lparr>Destination = Scanner_Text (Scanner_Scan ?bytes), Hash = ?h\<rparr>,
             Analytics = ?bytes\<rparr>"
    by simp
  have recs: "hit_records ?bytes = map (\<lambda>(now, ua). formatHeader ''hit: '' now @ ua) hs"
    using hit_records_of_visits [OF assms(2,3)] by (simp add: hit_record_def)
  then have "length (hit_records ?bytes) = length hs"
    by simp
  with reg run ana recs show ?thesis
    by blast
qed

theorem visits_then_getAnalytics_witness:
  "visits (Hash (newLink ''a''))
     [(\<lparr>Year = 2024, Month = 3, Day = 2, Hour = 4, Minute = 5, Second = 6\<rparr>, ''curl/8.0''),
      (\<lparr>Year = 2024, Month = 3, Day = 2, Hour = 4, Minute = 5, Second = 6\<rparr>, ''Mozilla/5.0'')]
     (snd (registerDestination ''a'' (\<lambda>name. None)))
   = Some ((\<lambda>name. None)(unit_name (Hash (newLink ''a'')) \<mapsto>
       \<lparr>contents = ''a'' @ LF # ''hit: 2024/03/02 04:05:06 curl/8.0'' @ LF
                      # ''hit: 2024/03/02 04:05:06 Mozilla/5.0'' @ [LF],
        readable = True, writable = True\<rparr>))
   \<and> hit_records (''a'' @ LF # ''hit: 2024/03/02 04:05:06 curl/8.0'' @ LF
                      # ''hit: 2024/03/02 04:05:06 Mozilla/5.0'' @ [LF])
      = [''hit: 2024/03/02 04:05:06 curl/8.0'', ''hit: 2024/03/02 04:05:06 Mozilla/5.0'']"
proof -
  let ?now = "\<lparr>Year = 2024, Month = 3, Day = 2, Hour = 4, Minute = 5, Second = 6\<rparr>"
  let ?hs = "[(?now, ''curl/8.0''), (?now, ''Mozilla/5.0'')]"
  let ?h = "Hash (newLink ''a'')"
  let ?f1 = "\<lparr>contents = ''a'' @ [LF], readable = True, writable = True\<rparr>"
  let ?fs1 = "(\<lambda>name. None)(unit_name ?h \<mapsto> ?f1)"
  have acc: "accessible (\<lambda>name. None) (unit_name ?h)"
    by (simp add: accessible_def)
  have reg: "registerDestination ''a'' (\<lambda>name. None) = (Inr ?h, ?fs1)"
    using registerDestination_new [of "\<lambda>name. None" "''a''"] by simp
  have run: "visits ?h ?hs ?fs1
      = Some (?fs1(unit_name ?h \<mapsto>
          ?f1\<lparr>contents := contents ?f1
                @ concat (map (\<lambda>(now, ua). hit_record now ua @ [LF]) ?hs)\<rparr>))"
    by (rule visits_present) simp_all
  from visits_then_getAnalytics [OF acc, of ?hs]
  have "hit_records (''a'' @ LF # concat (map (\<lambda>(now, ua). hit_record now ua @ [LF]) ?hs))
          = map (\<lambda>(now, ua). formatHeader ''hit: '' now @ ua) ?hs"
    by auto
  then have "hit_records (''a'' @ LF # ''hit: 2024/03/02 04:05:06 curl/8.0'' @ LF
                      # ''hit: 2024/03/02 04:05:06 Mozilla/5.0'' @ [LF])
      = [''hit: 2024/03/02 04:05:06 curl/8.0'', ''hit: 2024/03/02 04:05:06 Mozilla/5.0'']"
    using hit_record_example [of "''curl/8.0''"] hit_record_example [of "''Mozilla/5.0''"]
    by (simp add: hit_record_def)
  with reg run show ?thesis
    by (simp add: hit_record_example)
qed

text \<open>
  C2 as the specification states it, for every registered identifier and every client
  signature, fails in two ways. One visit with the signature \<^verbatim>\<open>"x\ny"\<close> leaves two lines
  after the destination line. And the identifier of the destination \<^verbatim>\<open>"a\nb"\<close> shows a
  line after the first without any visit.
\<close>

theorem visits_then_getAnalytics_counterexample:
  "visits (Hash (newLink ''a''))
     [(\<lparr>Year = 2024, Month = 3, Day = 2, Hour = 4, Minute = 5, Second = 6\<rparr>, ''x'' @ LF # ''y'')]
     (snd (registerDestination ''a'' (\<lambda>name. None)))
   = Some ((\<lambda>name. None)(unit_name (Hash (newLink ''a'')) \<mapsto>
       \<lparr>contents = ''a'' @ LF # ''hit: 2024/03/02 04:05:06 x'' @ LF # ''y'' @ [LF],
        readable = True, writable = True\<rparr>))
   \<and> getAnalytics (Hash (newLink ''a''))
       ((\<lambda>name. None)(unit_name (Hash (newLink ''a'')) \<mapsto>
       \<lparr>contents = ''a'' @ LF # ''hit: 2024/03/02 04:05:06 x'' @ LF # ''y'' @ [LF],
        readable = True, writable = True\<rparr>))
     = Inr \<lparr>GoTo = \<lparr>Destination = ''a'', Hash = Hash (newLink ''a'')\<rparr>,
            Analytics = ''a'' @ LF # ''hit: 2024/03/02 04:05:06 x'' @ LF # ''y'' @ [LF]\<rparr>
   \<and> hit_records (''a'' @ LF # ''hit: 2024/03/02 04:05:06 x'' @ LF # ''y'' @ [LF])
     = [''hit: 2024/03/02 04:05:06 x'', ''y'']
   \<and> visits (Hash (newLink (''a'' @ LF # ''b''))) []
        (snd (registerDestination (''a'' @ LF # ''b'') (\<lambda>name. None)))
     = Some (snd (registerDestination (''a'' @ LF # ''b'') (\<lambda>name. None)))
   \<and> map_sum id (\<lambda>la. hit_records (Analytics la))
        (getAnalytics (Hash (newLink (''a'' @ LF # ''b'')))
           (snd (registerDestination (''a'' @ LF # ''b'') (\<lambda>name. None))))
     = Inr [''b'']"
proof -
  let ?now = "\<lparr>Year = 2024, Month = 3, Day = 2, Hour = 4, Minute = 5, Second = 6\<rparr>"
  let ?h = "Hash (newLink ''a'')"
  let ?f1 = "\<lparr>contents = ''a'' @ [LF], readable = True, writable = True\<rparr>"
  let ?fs1 = "(\<lambda>name. None)(unit_name ?h \<mapsto> ?f1)"
  let ?f2 = "\<lparr>contents = ''a'' @ LF # ''hit: 2024/03/02 04:05:06 x'' @ LF # ''y'' @ [LF],
              readable = True, writable = True\<rparr>"
  let ?fs2 = "(\<lambda>name. None)(unit_name ?h \<mapsto> ?f2)"
  have reg: "snd (registerDestination ''a'' (\<lambda>name. None)) = ?fs1"
    using registerDestination_new [of "\<lambda>name. None" "''a''"] by simp
  have "visits ?h [(?now, ''x'' @ LF # ''y'')] ?fs1
      = Some (?fs1(unit_name ?h \<mapsto>
          ?f1\<lparr>contents := contents ?f1
                @ concat (map (\<lambda>(now, ua). hit_record now ua @ [LF])
                    [(?now, ''x'' @ LF # ''y'')])\<rparr>))"
    by (rule visits_present) simp_all
  then have run: "visits ?h [(?now, ''x'' @ LF # ''y'')] ?fs1 = Some ?fs2"
    by (simp add: hit_record_example)
  have "Scanner_Text (Scanner_Scan (''a'' @ LF # (''hit: 2024/03/02 04:05:06 x'' @ LF # ''y'' @ [LF])))
          = ''a''"
    by (rule Scanner_Text_first_line) (simp_all add: MaxScanTokenSize_def)
  then have ana: "getAnalytics ?h ?fs2
      = Inr \<lparr>GoTo = \<lparr>Destination = ''a'', Hash = ?h\<rparr>, Analytics = contents ?f2\<rparr>"
    using getAnalytics_present [of ?fs2 ?h ?f2] by simp
  have recs: "hit_records (''a'' @ LF # ''hit: 2024/03/02 04:05:06 x'' @ LF # ''y'' @ [LF])
      = [''hit: 2024/03/02 04:05:06 x'', ''y'']"
    by (simp add: hit_records_def lines_of_def)
  let ?d = "''a'' @ LF # ''b''"
  let ?g = "\<lparr>contents = ?d @ [LF], readable = True, writable = True\<rparr>"
  let ?gs = "(\<lambda>name. None)(unit_name (Hash (newLink ?d)) \<mapsto> ?g)"
  have reg': "snd (registerDestination ?d (\<lambda>name. None)) = ?gs"
    using registerDestination_new [of "\<lambda>name. None" ?d] by simp
  have "getAnalytics (Hash (newLink ?d)) ?gs
      = Inr \<lparr>GoTo = \<lparr>Destination = Scanner_Text (Scanner_Scan (contents ?g)),
                       Hash = Hash (newLink ?d)\<rparr>,
             Analytics = contents ?g\<rparr>"
    by (rule getAnalytics_present) simp_all
  moreover have "hit_records (contents ?g) = [''b'']"
    by (simp add: hit_records_def lines_of_def)
  ultimately have zero: "map_sum id (\<lambda>la. hit_records (Analytics la))
        (getAnalytics (Hash (newLink ?d)) ?gs) = Inr [''b'']"
    by simp
  show ?thesis
    unfolding reg reg' using run ana recs zero by simp
qed

section \<open>The layout of the directory\<close>







end
